theory Spec2Isabelle
  imports Main "HOL-Library.Sublist" "HOL-Library.AList"
begin

section \<open>Python values, exceptions and the runtime library\<close>

text \<open>
  The handler \<^verbatim>\<open>analyze_anomaly\<close> of \<^verbatim>\<open>main.py\<close> works on whatever
  \<^verbatim>\<open>request.get_json(silent=True)\<close> returns: an untyped Python object. The dataclasses of
  \<^verbatim>\<open>src/models/anomaly.py\<close> do not check their field types, so a field declared
  \<^verbatim>\<open>Dict[str, datetime]\<close> holds whatever the handler stored there. Python objects are
  therefore one datatype. Floats (\<open>'f\<close>) and datetimes (\<open>'d\<close>) stay abstract: no property
  below depends on how a float or a datetime is represented. A dict is an association list
  (insertion order kept, looked up with \<open>map_of\<close>); the keys of a JSON object are strings.
\<close>

datatype ('f, 'd) pyval =
    PNone
  | PBool bool
  | PInt int
  | PFloat 'f
  | PStr string
  | PList "('f, 'd) pyval list"
  | PDict "(string \<times> ('f, 'd) pyval) list"
  | PDatetime 'd

text \<open>
  An exception is what the two handlers of \<^verbatim>\<open>analyze_anomaly\<close> look at: the class name
  (\<^verbatim>\<open>type(e).__name__\<close>), whether \<^verbatim>\<open>except ValueError\<close> catches it (the class is
  \<^verbatim>\<open>ValueError\<close> or one of its subclasses), whether \<^verbatim>\<open>except Exception\<close> catches it
  (the class derives from \<^verbatim>\<open>Exception\<close>; \<^verbatim>\<open>SystemExit\<close> and \<^verbatim>\<open>KeyboardInterrupt\<close>, for
  instance, do not) and the text \<^verbatim>\<open>str(e)\<close>.
\<close>

record exn =
  exc_type :: string
  is_ValueError :: bool
  is_Exception :: bool
  exc_message :: string

definition ValueError :: "string \<Rightarrow> exn" where
  "ValueError m =
     \<lparr>exc_type = ''ValueError'', is_ValueError = True, is_Exception = True, exc_message = m\<rparr>"

definition TypeError :: "string \<Rightarrow> exn" where
  "TypeError m =
     \<lparr>exc_type = ''TypeError'', is_ValueError = False, is_Exception = True, exc_message = m\<rparr>"

definition AttributeError :: "string \<Rightarrow> exn" where
  "AttributeError m =
     \<lparr>exc_type = ''AttributeError'', is_ValueError = False, is_Exception = True, exc_message = m\<rparr>"

definition KeyError :: "string \<Rightarrow> exn" where
  "KeyError m =
     \<lparr>exc_type = ''KeyError'', is_ValueError = False, is_Exception = True, exc_message = m\<rparr>"

definition OverflowError :: "string \<Rightarrow> exn" where
  "OverflowError m =
     \<lparr>exc_type = ''OverflowError'', is_ValueError = False, is_Exception = True, exc_message = m\<rparr>"

text \<open>Sequencing of steps that may raise: the first exception ends the computation.\<close>

definition ebind :: "exn + 'a \<Rightarrow> ('a \<Rightarrow> exn + 'b) \<Rightarrow> exn + 'b" where
  "ebind m k = (case m of Inl e \<Rightarrow> Inl e | Inr x \<Rightarrow> k x)"

text \<open>
  The parts of the Python runtime the handler calls and whose results depend on the
  representation of floats and datetimes are parameters of the model:
  \<^item> \<open>float_of_int\<close>: \<^verbatim>\<open>float(n)\<close> on an int, \<open>None\<close> for \<^verbatim>\<open>OverflowError\<close>;
  \<^item> \<open>float_of_str\<close>: \<^verbatim>\<open>float(s)\<close> on a str, \<open>None\<close> for \<^verbatim>\<open>ValueError\<close>;
  \<^item> \<open>float_0_8\<close>: the float written \<^verbatim>\<open>0.8\<close> in the source;
  \<^item> \<open>float_nonzero\<close>: the truth value of a float;
  \<^item> \<open>fromisoformat\<close>: \<^verbatim>\<open>datetime.fromisoformat\<close> on a str, \<open>Inl\<close> the message of its
    \<^verbatim>\<open>ValueError\<close>;
  \<^item> \<open>isoformat\<close>: \<^verbatim>\<open>datetime.isoformat\<close>;
  \<^item> \<open>repr_nonstr\<close>: \<^verbatim>\<open>repr\<close> of an object that is not a str.
  Every general theorem below holds for every such library.
\<close>

record ('f, 'd) pylib =
  float_of_int :: "int \<Rightarrow> 'f option"
  float_of_str :: "string \<Rightarrow> 'f option"
  float_0_8 :: 'f
  float_nonzero :: "'f \<Rightarrow> bool"
  fromisoformat :: "string \<Rightarrow> string + 'd"
  isoformat :: "'d \<Rightarrow> string"
  repr_nonstr :: "('f, 'd) pyval \<Rightarrow> string"

subsection \<open>\<^verbatim>\<open>repr\<close> of a str\<close>

text \<open>
  \<^verbatim>\<open>repr(s)\<close> as CPython computes it, for strings of 8-bit code points: single quotes
  unless the string has a single quote and no double quote; the quote and the backslash are
  escaped, tab, newline and carriage return are written \<^verbatim>\<open>\t\<close>, \<^verbatim>\<open>\n\<close>, \<^verbatim>\<open>\r\<close>, the other
  non-printable code points (below 32, 127 to 160, and 173) as \<^verbatim>\<open>\xhh\<close>.
\<close>

definition hex_digit :: "nat \<Rightarrow> char" where
  "hex_digit n = ''0123456789abcdef'' ! (n mod 16)"

definition repr_char :: "char \<Rightarrow> char \<Rightarrow> string" where
  "repr_char q c =
     (let n = (of_char c :: nat) in
      if c = q \<or> c = CHR 0x5C then [CHR 0x5C, c]
      else if n = 9 then [CHR 0x5C, CHR ''t'']
      else if n = 10 then [CHR 0x5C, CHR ''n'']
      else if n = 13 then [CHR 0x5C, CHR ''r'']
      else if n < 32 \<or> (127 \<le> n \<and> n \<le> 160) \<or> n = 173
        then [CHR 0x5C, CHR ''x'', hex_digit (n div 16), hex_digit n]
      else [c])"

definition repr_str :: "string \<Rightarrow> string" where
  "repr_str s =
     (let q = (if CHR 0x27 \<in> set s \<and> CHR 0x22 \<notin> set s then CHR 0x22 else CHR 0x27)
      in [q] @ concat (map (repr_char q) s) @ [q])"

definition py_repr :: "('f, 'd) pylib \<Rightarrow> ('f, 'd) pyval \<Rightarrow> string" where
  "py_repr L v = (case v of PStr s \<Rightarrow> repr_str s | _ \<Rightarrow> repr_nonstr L v)"

subsection \<open>Operations on Python objects\<close>

text \<open>The name of the type of an object, and a name in single quotes, as error messages
  print them.\<close>

definition quoted :: "string \<Rightarrow> string" where
  "quoted s = [CHR 0x27] @ s @ [CHR 0x27]"

fun type_name :: "('f, 'd) pyval \<Rightarrow> string" where
  "type_name PNone = ''NoneType''"
| "type_name (PBool _) = ''bool''"
| "type_name (PInt _) = ''int''"
| "type_name (PFloat _) = ''float''"
| "type_name (PStr _) = ''str''"
| "type_name (PList _) = ''list''"
| "type_name (PDict _) = ''dict''"
| "type_name (PDatetime _) = ''datetime.datetime''"

text \<open>Truth value of an object (\<^verbatim>\<open>if not request_json\<close>, \<^verbatim>\<open>if missing_fields\<close>).\<close>

fun truthy :: "('f, 'd) pylib \<Rightarrow> ('f, 'd) pyval \<Rightarrow> bool" where
  "truthy L PNone = False"
| "truthy L (PBool b) = b"
| "truthy L (PInt n) = (n \<noteq> 0)"
| "truthy L (PFloat x) = float_nonzero L x"
| "truthy L (PStr s) = (s \<noteq> [])"
| "truthy L (PList xs) = (xs \<noteq> [])"
| "truthy L (PDict kvs) = (kvs \<noteq> [])"
| "truthy L (PDatetime d) = True"

text \<open>
  \<^verbatim>\<open>f in obj\<close> for a str \<open>f\<close>: key membership in a dict, element membership in a list (a
  str equals only an equal str), substring test in a str, \<^verbatim>\<open>TypeError\<close> otherwise.
\<close>

fun py_in :: "string \<Rightarrow> ('f, 'd) pyval \<Rightarrow> exn + bool" where
  "py_in f (PDict kvs) = Inr (f \<in> set (map fst kvs))"
| "py_in f (PList xs) = Inr (PStr f \<in> set xs)"
| "py_in f (PStr s) = Inr (sublist f s)"
| "py_in f v = Inl (TypeError (''argument of type '' @ quoted (type_name v) @ '' is not iterable''))"

text \<open>\<^verbatim>\<open>obj[key]\<close> for a str key.\<close>

fun py_getitem :: "('f, 'd) pyval \<Rightarrow> string \<Rightarrow> exn + ('f, 'd) pyval" where
  "py_getitem (PDict kvs) k =
     (case map_of kvs k of None \<Rightarrow> Inl (KeyError (repr_str k)) | Some v \<Rightarrow> Inr v)"
| "py_getitem (PList xs) k =
     Inl (TypeError ''list indices must be integers or slices, not str'')"
| "py_getitem (PStr s) k = Inl (TypeError (''string indices must be integers, not '' @ quoted ''str''))"
| "py_getitem v k = Inl (TypeError (quoted (type_name v) @ '' object is not subscriptable''))"

text \<open>\<^verbatim>\<open>obj.get(key, default)\<close>: a method of dicts only.\<close>

fun py_get :: "('f, 'd) pyval \<Rightarrow> string \<Rightarrow> ('f, 'd) pyval \<Rightarrow> exn + ('f, 'd) pyval" where
  "py_get (PDict kvs) k dflt = Inr (case map_of kvs k of None \<Rightarrow> dflt | Some v \<Rightarrow> v)"
| "py_get v k dflt =
     Inl (AttributeError (quoted (type_name v) @ '' object has no attribute '' @ quoted ''get''))"

text \<open>
  \<^verbatim>\<open>obj.replace('Z', '+00:00')\<close>: on a str every \<^verbatim>\<open>Z\<close> becomes \<^verbatim>\<open>+00:00\<close>. The other JSON
  types have no such method; a datetime has one, which rejects these arguments.
\<close>

definition replace_Z :: "string \<Rightarrow> string" where
  "replace_Z s = concat (map (\<lambda>c. if c = CHR ''Z'' then ''+00:00'' else [c]) s)"

fun py_replace_Z :: "('f, 'd) pyval \<Rightarrow> exn + string" where
  "py_replace_Z (PStr s) = Inr (replace_Z s)"
| "py_replace_Z (PDatetime d) =
     Inl (TypeError (quoted ''str'' @ '' object cannot be interpreted as an integer''))"
| "py_replace_Z v =
     Inl (AttributeError (quoted (type_name v) @ '' object has no attribute '' @ quoted ''replace''))"

text \<open>\<^verbatim>\<open>datetime.fromisoformat(s)\<close> on a str.\<close>

definition py_fromisoformat :: "('f, 'd) pylib \<Rightarrow> string \<Rightarrow> exn + 'd" where
  "py_fromisoformat L s =
     (case fromisoformat L s of Inl m \<Rightarrow> Inl (ValueError m) | Inr d \<Rightarrow> Inr d)"

text \<open>
  \<^verbatim>\<open>float(obj)\<close>: a float is returned as it is, an int (a bool is an int) is converted, a
  str is parsed (\<^verbatim>\<open>ValueError\<close> quoting the string when it is no float literal), any other
  object is a \<^verbatim>\<open>TypeError\<close>.
\<close>

fun py_float :: "('f, 'd) pylib \<Rightarrow> ('f, 'd) pyval \<Rightarrow> exn + 'f" where
  "py_float L (PFloat x) = Inr x"
| "py_float L (PInt n) =
     (case float_of_int L n of
        None \<Rightarrow> Inl (OverflowError ''int too large to convert to float'')
      | Some x \<Rightarrow> Inr x)"
| "py_float L (PBool b) =
     (case float_of_int L (if b then 1 else 0) of
        None \<Rightarrow> Inl (OverflowError ''int too large to convert to float'')
      | Some x \<Rightarrow> Inr x)"
| "py_float L (PStr s) =
     (case float_of_str L s of
        None \<Rightarrow> Inl (ValueError (''could not convert string to float: '' @ repr_str s))
      | Some x \<Rightarrow> Inr x)"
| "py_float L v =
     Inl (TypeError (''float() argument must be a string or a real number, not ''
                     @ quoted (type_name v)))"


section \<open>The data model of \<^verbatim>\<open>src/models/anomaly.py\<close>\<close>

datatype AnomalyType = STABILITY | PERFORMANCE | COST | RESOURCE | UNKNOWN

fun AnomalyType_value :: "AnomalyType \<Rightarrow> string" where
  "AnomalyType_value STABILITY = ''stability''"
| "AnomalyType_value PERFORMANCE = ''performance''"
| "AnomalyType_value COST = ''cost''"
| "AnomalyType_value RESOURCE = ''resource''"
| "AnomalyType_value UNKNOWN = ''unknown''"

definition AnomalyType_members :: "AnomalyType list" where
  "AnomalyType_members = [STABILITY, PERFORMANCE, COST, RESOURCE, UNKNOWN]"

datatype Severity = CRITICAL | HIGH | MEDIUM | LOW | INFO

fun Severity_value :: "Severity \<Rightarrow> string" where
  "Severity_value CRITICAL = ''critical''"
| "Severity_value HIGH = ''high''"
| "Severity_value MEDIUM = ''medium''"
| "Severity_value LOW = ''low''"
| "Severity_value INFO = ''info''"

definition Severity_members :: "Severity list" where
  "Severity_members = [CRITICAL, HIGH, MEDIUM, LOW, INFO]"

text \<open>
  Calling an \<^verbatim>\<open>Enum\<close> class on an object looks the member up by value: the member whose
  value equals the object, or \<^verbatim>\<open>ValueError("<repr of the object> is not a valid <class>")\<close>.
  The values are strs, so an object that is not a str equals none of them.
\<close>

definition enum_call ::
  "('f, 'd) pylib \<Rightarrow> 'm list \<Rightarrow> ('m \<Rightarrow> string) \<Rightarrow> string \<Rightarrow> ('f, 'd) pyval \<Rightarrow> exn + 'm" where
  "enum_call L members val cls v =
     (case (case v of PStr s \<Rightarrow> find (\<lambda>m. val m = s) members | _ \<Rightarrow> None) of
        Some m \<Rightarrow> Inr m
      | None \<Rightarrow> Inl (ValueError (py_repr L v @ '' is not a valid '' @ cls)))"

definition AnomalyType_call :: "('f, 'd) pylib \<Rightarrow> ('f, 'd) pyval \<Rightarrow> exn + AnomalyType" where
  "AnomalyType_call L v = enum_call L AnomalyType_members AnomalyType_value ''AnomalyType'' v"

definition Severity_call :: "('f, 'd) pylib \<Rightarrow> ('f, 'd) pyval \<Rightarrow> exn + Severity" where
  "Severity_call L v = enum_call L Severity_members Severity_value ''Severity'' v"

text \<open>
  The dataclass \<^verbatim>\<open>Anomaly\<close>. A field the handler fills through a conversion has the type
  the conversion returns; a field it fills with a value of the request as it is holds any
  Python object.
\<close>

record ('f, 'd) Anomaly =
  anomaly_id :: "('f, 'd) pyval"
  detected_at :: 'd
  metric_name :: "('f, 'd) pyval"
  metric_type :: "('f, 'd) pyval"
  current_value :: 'f
  baseline_value :: 'f
  deviation_sigma :: 'f
  deviation_percentage :: 'f
  anomaly_type :: AnomalyType
  severity :: Severity
  confidence :: "('f, 'd) pyval"
  affected_resources :: "('f, 'd) pyval"
  time_window :: "('f, 'd) pyval"
  related_metrics :: "('f, 'd) pyval"
  metadata :: "('f, 'd) pyval"

text \<open>
  The results of the analysis engine, typed as their dataclasses declare them
  (\<open>rc_confidence\<close> is the field \<^verbatim>\<open>confidence\<close> of \<^verbatim>\<open>RootCause\<close>).
\<close>

record ('f, 'd) RootCause =
  primary_cause :: string
  contributing_factors :: "string list"
  rc_confidence :: 'f
  evidence :: "string list"
  correlation_data :: "('f, 'd) pyval"

record Recommendation =
  priority :: string
  action :: string
  rationale :: string
  expected_impact :: string
  implementation_steps :: "string list"
  estimated_effort :: string
  risk_level :: string
  cost_impact :: "string option"

record HumanReadableSummary =
  what_happened :: string
  why_it_happened :: string
  what_is_the_impact :: string
  what_improvements_can_be_made :: string
  estimated_benefit_if_implemented :: string

record ('f, 'd) AnomalyAnalysis =
  anomaly :: "('f, 'd) Anomaly"
  root_cause :: "('f, 'd) RootCause"
  recommendations :: "Recommendation list"
  analyzed_at :: 'd
  analysis_duration_ms :: int
  ai_model_used :: string
  historical_context :: string
  trend_analysis :: string
  predicted_impact :: string
  summary :: "HumanReadableSummary option"

subsection \<open>\<^verbatim>\<open>Anomaly.to_dict\<close>\<close>

text \<open>\<^verbatim>\<open>v.isoformat()\<close>: a method of datetimes only.\<close>

fun py_isoformat :: "('f, 'd) pylib \<Rightarrow> ('f, 'd) pyval \<Rightarrow> exn + ('f, 'd) pyval" where
  "py_isoformat L (PDatetime d) = Inr (PStr (isoformat L d))"
| "py_isoformat L v =
     Inl (AttributeError (quoted (type_name v) @ '' object has no attribute ''
                          @ quoted ''isoformat''))"

text \<open>\<^verbatim>\<open>obj.items()\<close>: a method of dicts only.\<close>

fun py_items :: "('f, 'd) pyval \<Rightarrow> exn + (string \<times> ('f, 'd) pyval) list" where
  "py_items (PDict kvs) = Inr kvs"
| "py_items v =
     Inl (AttributeError (quoted (type_name v) @ '' object has no attribute '' @ quoted ''items''))"

text \<open>The comprehension \<^verbatim>\<open>{k: v.isoformat() for k, v in self.time_window.items()}\<close>.\<close>

fun isoformat_items ::
  "('f, 'd) pylib \<Rightarrow> (string \<times> ('f, 'd) pyval) list \<Rightarrow> exn + (string \<times> ('f, 'd) pyval) list" where
  "isoformat_items L [] = Inr []"
| "isoformat_items L ((k, v) # kvs) =
     ebind (py_isoformat L v) (\<lambda>s.
     ebind (isoformat_items L kvs) (\<lambda>r. Inr ((k, s) # r)))"

definition Anomaly_to_dict :: "('f, 'd) pylib \<Rightarrow> ('f, 'd) Anomaly \<Rightarrow> exn + ('f, 'd) pyval" where
  "Anomaly_to_dict L a =
     ebind (py_items (time_window a)) (\<lambda>kvs.
     ebind (isoformat_items L kvs) (\<lambda>tw.
     Inr (PDict
       [(''anomaly_id'', anomaly_id a),
        (''detected_at'', PStr (isoformat L (detected_at a))),
        (''metric_name'', metric_name a),
        (''metric_type'', metric_type a),
        (''current_value'', PFloat (current_value a)),
        (''baseline_value'', PFloat (baseline_value a)),
        (''deviation_sigma'', PFloat (deviation_sigma a)),
        (''deviation_percentage'', PFloat (deviation_percentage a)),
        (''anomaly_type'', PStr (AnomalyType_value (anomaly_type a))),
        (''severity'', PStr (Severity_value (severity a))),
        (''confidence'', confidence a),
        (''affected_resources'', affected_resources a),
        (''time_window'', PDict tw),
        (''related_metrics'', related_metrics a),
        (''metadata'', metadata a)])))"

subsection \<open>\<^verbatim>\<open>AnomalyAnalysis.to_dict\<close>\<close>

definition summary_dict :: "HumanReadableSummary \<Rightarrow> ('f, 'd) pyval" where
  "summary_dict s = PDict
     [(''what_happened'', PStr (what_happened s)),
      (''why_it_happened'', PStr (why_it_happened s)),
      (''what_is_the_impact'', PStr (what_is_the_impact s)),
      (''what_improvements_can_be_made'', PStr (what_improvements_can_be_made s)),
      (''estimated_benefit_if_implemented'', PStr (estimated_benefit_if_implemented s))]"

definition AnomalyAnalysis_to_dict ::
  "('f, 'd) pylib \<Rightarrow> ('f, 'd) AnomalyAnalysis \<Rightarrow> exn + ('f, 'd) pyval" where
  "AnomalyAnalysis_to_dict L an =
     ebind (Anomaly_to_dict L (anomaly an)) (\<lambda>ad.
     Inr (PDict
       ([(''anomaly'', ad),
         (''root_cause'', PDict
            [(''primary_cause'', PStr (primary_cause (root_cause an))),
             (''contributing_factors'', PList (map PStr (contributing_factors (root_cause an)))),
             (''confidence'', PFloat (rc_confidence (root_cause an))),
             (''evidence'', PList (map PStr (evidence (root_cause an)))),
             (''correlation_data'', correlation_data (root_cause an))]),
         (''recommendations'', PList (map (\<lambda>rec. PDict
            [(''priority'', PStr (priority rec)),
             (''action'', PStr (action rec)),
             (''rationale'', PStr (rationale rec)),
             (''expected_impact'', PStr (expected_impact rec)),
             (''implementation_steps'', PList (map PStr (implementation_steps rec))),
             (''estimated_effort'', PStr (estimated_effort rec)),
             (''risk_level'', PStr (risk_level rec)),
             (''cost_impact'', (case cost_impact rec of None \<Rightarrow> PNone | Some c \<Rightarrow> PStr c))])
            (recommendations an))),
         (''analyzed_at'', PStr (isoformat L (analyzed_at an))),
         (''analysis_duration_ms'', PInt (analysis_duration_ms an)),
         (''ai_model_used'', PStr (ai_model_used an)),
         (''historical_context'', PStr (historical_context an)),
         (''trend_analysis'', PStr (trend_analysis an)),
         (''predicted_impact'', PStr (predicted_impact an))]
        @ (case summary an of
             None \<Rightarrow> []
           | Some s \<Rightarrow> [(''summary'', summary_dict s)]))))"

subsection \<open>\<^verbatim>\<open>ANOMALY_TABLE_SCHEMA\<close>\<close>

record column =
  name :: string
  field_type :: string
  mode :: string

definition ANOMALY_TABLE_SCHEMA :: "column list" where
  "ANOMALY_TABLE_SCHEMA =
     [\<lparr>name = ''anomaly_id'', field_type = ''STRING'', mode = ''REQUIRED''\<rparr>,
      \<lparr>name = ''detected_at'', field_type = ''TIMESTAMP'', mode = ''REQUIRED''\<rparr>,
      \<lparr>name = ''metric_name'', field_type = ''STRING'', mode = ''REQUIRED''\<rparr>,
      \<lparr>name = ''metric_type'', field_type = ''STRING'', mode = ''REQUIRED''\<rparr>,
      \<lparr>name = ''current_value'', field_type = ''FLOAT'', mode = ''REQUIRED''\<rparr>,
      \<lparr>name = ''baseline_value'', field_type = ''FLOAT'', mode = ''REQUIRED''\<rparr>,
      \<lparr>name = ''deviation_sigma'', field_type = ''FLOAT'', mode = ''REQUIRED''\<rparr>,
      \<lparr>name = ''deviation_percentage'', field_type = ''FLOAT'', mode = ''REQUIRED''\<rparr>,
      \<lparr>name = ''anomaly_type'', field_type = ''STRING'', mode = ''REQUIRED''\<rparr>,
      \<lparr>name = ''severity'', field_type = ''STRING'', mode = ''REQUIRED''\<rparr>,
      \<lparr>name = ''confidence'', field_type = ''FLOAT'', mode = ''REQUIRED''\<rparr>,
      \<lparr>name = ''affected_resources'', field_type = ''JSON'', mode = ''NULLABLE''\<rparr>,
      \<lparr>name = ''related_metrics'', field_type = ''JSON'', mode = ''NULLABLE''\<rparr>,
      \<lparr>name = ''metadata'', field_type = ''JSON'', mode = ''NULLABLE''\<rparr>]"

text \<open>
  The fields the dataclass \<^verbatim>\<open>Anomaly\<close> declares (lines 36 to 60), with their annotations.
\<close>

datatype annotation =
  T_str | T_datetime | T_float | T_AnomalyType | T_Severity | T_List | T_Dict

definition Anomaly_fields :: "(string \<times> annotation) list" where
  "Anomaly_fields =
     [(''anomaly_id'', T_str),
      (''detected_at'', T_datetime),
      (''metric_name'', T_str),
      (''metric_type'', T_str),
      (''current_value'', T_float),
      (''baseline_value'', T_float),
      (''deviation_sigma'', T_float),
      (''deviation_percentage'', T_float),
      (''anomaly_type'', T_AnomalyType),
      (''severity'', T_Severity),
      (''confidence'', T_float),
      (''affected_resources'', T_List),
      (''time_window'', T_Dict),
      (''related_metrics'', T_Dict),
      (''metadata'', T_Dict)]"

text \<open>
  Modelled from the spec: the column type of a field (no code of the repository computes
  it). Floats are double-precision (\<^verbatim>\<open>FLOAT\<close>) columns, nested mappings and sequences
  \<^verbatim>\<open>JSON\<close> columns; a timestamp is a \<^verbatim>\<open>TIMESTAMP\<close> column, a string and an enumeration
  (which serializes to its string value) a \<^verbatim>\<open>STRING\<close> column.
\<close>

fun column_type :: "annotation \<Rightarrow> string" where
  "column_type T_str = ''STRING''"
| "column_type T_datetime = ''TIMESTAMP''"
| "column_type T_float = ''FLOAT''"
| "column_type T_AnomalyType = ''STRING''"
| "column_type T_Severity = ''STRING''"
| "column_type T_List = ''JSON''"
| "column_type T_Dict = ''JSON''"


section \<open>The handler \<^verbatim>\<open>analyze_anomaly\<close> of \<^verbatim>\<open>main.py\<close>\<close>

text \<open>
  A request is its method (\<open>http_method\<close> for \<^verbatim>\<open>request.method\<close>) and what
  \<^verbatim>\<open>request.get_json(silent=True)\<close> returns (\<open>PNone\<close>
  when the body does not parse). A response is the triple the handler returns; a body made
  by \<^verbatim>\<open>json.dumps\<close> is kept as the object that was dumped.
\<close>

record ('f, 'd) request =
  http_method :: string
  get_json :: "('f, 'd) pyval"

datatype ('f, 'd) body = Text string | JsonText "('f, 'd) pyval"

record ('f, 'd) response =
  body :: "('f, 'd) body"
  status :: nat
  headers :: "(string \<times> string) list"

definition preflight_headers :: "(string \<times> string) list" where
  "preflight_headers =
     [(''Access-Control-Allow-Origin'', ''*''),
      (''Access-Control-Allow-Methods'', ''POST''),
      (''Access-Control-Allow-Headers'', ''Content-Type''),
      (''Access-Control-Max-Age'', ''3600'')]"

definition main_headers :: "(string \<times> string) list" where
  "main_headers =
     [(''Access-Control-Allow-Origin'', ''*''),
      (''Content-Type'', ''application/json'')]"

text \<open>
  \<^verbatim>\<open>json.dumps\<close> raises \<^verbatim>\<open>TypeError\<close> on an object that is not JSON: here, one that holds
  a datetime.
\<close>

fun is_json :: "('f, 'd) pyval \<Rightarrow> bool" where
  "is_json (PList xs) = list_all is_json xs"
| "is_json (PDict kvs) = list_all (\<lambda>kv. is_json (snd kv)) kvs"
| "is_json (PDatetime d) = False"
| "is_json v = True"

definition json_dumps :: "('f, 'd) pyval \<Rightarrow> exn + ('f, 'd) body" where
  "json_dumps v =
     (if is_json v then Inr (JsonText v)
      else Inl (TypeError ''Object of type datetime is not JSON serializable''))"

definition required_fields :: "string list" where
  "required_fields =
     [''anomaly_id'', ''detected_at'', ''metric_name'', ''metric_type'',
      ''current_value'', ''baseline_value'', ''deviation_sigma'',
      ''deviation_percentage'', ''anomaly_type'', ''severity'']"

text \<open>The comprehension \<^verbatim>\<open>[f for f in required_fields if f not in request_json]\<close>.\<close>

fun not_in_request :: "string list \<Rightarrow> ('f, 'd) pyval \<Rightarrow> exn + string list" where
  "not_in_request [] rj = Inr []"
| "not_in_request (f # fs) rj =
     ebind (py_in f rj) (\<lambda>b.
     ebind (not_in_request fs rj) (\<lambda>ms. Inr (if b then ms else f # ms)))"

text \<open>
  Lines 111 to 133: the log line reads \<^verbatim>\<open>request_json['anomaly_id']\<close>, then the timestamp
  is parsed, then the arguments of \<^verbatim>\<open>Anomaly(...)\<close> are evaluated in the order written.
\<close>

definition build_anomaly :: "('f, 'd) pylib \<Rightarrow> ('f, 'd) pyval \<Rightarrow> exn + ('f, 'd) Anomaly" where
  "build_anomaly L rj =
     ebind (py_getitem rj ''anomaly_id'') (\<lambda>logged.
     ebind (py_getitem rj ''detected_at'') (\<lambda>ts.
     ebind (py_replace_Z ts) (\<lambda>iso.
     ebind (py_fromisoformat L iso) (\<lambda>dt.
     ebind (py_getitem rj ''anomaly_id'') (\<lambda>aid.
     ebind (py_getitem rj ''metric_name'') (\<lambda>mn.
     ebind (py_getitem rj ''metric_type'') (\<lambda>mt.
     ebind (ebind (py_getitem rj ''current_value'') (py_float L)) (\<lambda>cv.
     ebind (ebind (py_getitem rj ''baseline_value'') (py_float L)) (\<lambda>bv.
     ebind (ebind (py_getitem rj ''deviation_sigma'') (py_float L)) (\<lambda>ds.
     ebind (ebind (py_getitem rj ''deviation_percentage'') (py_float L)) (\<lambda>dp.
     ebind (ebind (py_getitem rj ''anomaly_type'') (AnomalyType_call L)) (\<lambda>aty.
     ebind (ebind (py_getitem rj ''severity'') (Severity_call L)) (\<lambda>sev.
     ebind (py_get rj ''confidence'' (PFloat (float_0_8 L))) (\<lambda>conf.
     ebind (py_get rj ''affected_resources'' (PList [])) (\<lambda>res.
     ebind (py_get rj ''time_window'' (PDict [])) (\<lambda>tw.
     ebind (py_get rj ''related_metrics'' (PDict [])) (\<lambda>rm.
     ebind (py_get rj ''metadata'' (PDict [])) (\<lambda>md.
     Inr \<lparr>anomaly_id = aid, detected_at = dt, metric_name = mn, metric_type = mt,
          current_value = cv, baseline_value = bv, deviation_sigma = ds,
          deviation_percentage = dp, anomaly_type = aty, severity = sev,
          confidence = conf, affected_resources = res, time_window = tw,
          related_metrics = rm, metadata = md\<rparr>))))))))))))))))))"

text \<open>Lines 143 to 178: the dict \<^verbatim>\<open>response_data\<close>.\<close>

definition response_data ::
  "('f, 'd) pylib \<Rightarrow> ('f, 'd) AnomalyAnalysis \<Rightarrow> (string \<times> ('f, 'd) pyval) list" where
  "response_data L an =
     [(''success'', PBool True),
      (''anomaly_id'', anomaly_id (anomaly an)),
      (''root_cause'', PDict
         [(''primary_cause'', PStr (primary_cause (root_cause an))),
          (''contributing_factors'', PList (map PStr (contributing_factors (root_cause an)))),
          (''confidence'', PFloat (rc_confidence (root_cause an))),
          (''evidence'', PList (map PStr (evidence (root_cause an))))]),
      (''recommendations'', PList (map (\<lambda>rec. PDict
         [(''priority'', PStr (priority rec)),
          (''action'', PStr (action rec)),
          (''rationale'', PStr (rationale rec)),
          (''expected_impact'', PStr (expected_impact rec)),
          (''implementation_steps'', PList (map PStr (implementation_steps rec))),
          (''estimated_effort'', PStr (estimated_effort rec)),
          (''risk_level'', PStr (risk_level rec))])
         (recommendations an))),
      (''analyzed_at'', PStr (isoformat L (analyzed_at an) @ ''Z'')),
      (''ai_model_used'', PStr (ai_model_used an)),
      (''analysis_duration_ms'', PInt (analysis_duration_ms an)),
      (''saved_to_bigquery'', PBool True)]
     @ (case summary an of
          None \<Rightarrow> []
        | Some s \<Rightarrow> [(''human_readable_summary'', summary_dict s)])"

text \<open>
  The body of the \<^verbatim>\<open>try\<close> statement (lines 79 to 182). The analysis engine
  (\<^verbatim>\<open>get_config()\<close>, \<^verbatim>\<open>AnomalyAnalyzerAgent(config)\<close> and \<^verbatim>\<open>analyzer.analyze_anomaly(anomaly)\<close>,
  lines 136 to 140) is not part of the reviewed sources: it is the parameter \<open>engine\<close>,
  which returns an analysis or raises. Beside its result the body returns the list of the
  anomalies the engine was invoked on, so that "the engine is not invoked" is a property of
  the model. Logging has no effect on the response and is left out.
\<close>

definition try_body ::
  "('f, 'd) pylib \<Rightarrow> (('f, 'd) Anomaly \<Rightarrow> exn + ('f, 'd) AnomalyAnalysis) \<Rightarrow> ('f, 'd) pyval
     \<Rightarrow> (exn + ('f, 'd) response) \<times> ('f, 'd) Anomaly list" where
  "try_body L engine request_json =
     (if \<not> truthy L request_json then
        (Inr \<lparr>body = JsonText (PDict
                [(''error'', PStr ''Invalid request''),
                 (''message'', PStr ''Request body must be JSON'')]),
              status = 400, headers = main_headers\<rparr>, [])
      else
        case not_in_request required_fields request_json of
          Inl e \<Rightarrow> (Inl e, [])
        | Inr missing_fields \<Rightarrow>
            if missing_fields \<noteq> [] then
              (Inr \<lparr>body = JsonText (PDict
                      [(''error'', PStr ''Missing required fields''),
                       (''missing'', PList (map PStr missing_fields)),
                       (''required'', PList (map PStr required_fields))]),
                    status = 400, headers = main_headers\<rparr>, [])
            else
              (case build_anomaly L request_json of
                 Inl e \<Rightarrow> (Inl e, [])
               | Inr a \<Rightarrow>
                   (case engine a of
                      Inl e \<Rightarrow> (Inl e, [a])
                    | Inr analysis \<Rightarrow>
                        (ebind (json_dumps (PDict (response_data L analysis))) (\<lambda>b.
                           Inr \<lparr>body = b, status = 200, headers = main_headers\<rparr>), [a]))))"

text \<open>
  The two \<^verbatim>\<open>except\<close> clauses (lines 184 to 205): \<^verbatim>\<open>ValueError\<close> first, then
  \<^verbatim>\<open>Exception\<close>. An exception that neither clause catches leaves the handler: no response
  is returned (\<open>Inl\<close>).
\<close>

definition except_clauses :: "exn \<Rightarrow> exn + ('f, 'd) response" where
  "except_clauses e =
     (if is_ValueError e then
        Inr \<lparr>body = JsonText (PDict
              [(''error'', PStr ''Validation error''),
               (''message'', PStr (exc_message e))]),
            status = 400, headers = main_headers\<rparr>
      else if is_Exception e then
        Inr \<lparr>body = JsonText (PDict
              [(''error'', PStr ''Internal server error''),
               (''message'', PStr (exc_message e)),
               (''type'', PStr (exc_type e))]),
            status = 500, headers = main_headers\<rparr>
      else Inl e)"

text \<open>
  The handler: the preflight answer, the \<^verbatim>\<open>try\<close> body, the \<^verbatim>\<open>except\<close> clauses. It returns
  a response (\<open>Inr\<close>) or is left by an exception (\<open>Inl\<close>).
\<close>

definition analyze_anomaly ::
  "('f, 'd) pylib \<Rightarrow> (('f, 'd) Anomaly \<Rightarrow> exn + ('f, 'd) AnomalyAnalysis) \<Rightarrow> ('f, 'd) request
     \<Rightarrow> (exn + ('f, 'd) response) \<times> ('f, 'd) Anomaly list" where
  "analyze_anomaly L engine request =
     (if http_method request = ''OPTIONS'' then
        (Inr \<lparr>body = Text [], status = 204, headers = preflight_headers\<rparr>, [])
      else
        case try_body L engine (get_json request) of
          (Inr r, calls) \<Rightarrow> (Inr r, calls)
        | (Inl e, calls) \<Rightarrow> (except_clauses e, calls))"

section \<open>A small runtime library, to run the handler on concrete requests\<close>

text \<open>
  The general theorems are about every library. To run the handler on a concrete request
  a library is needed; this one implements a fragment of CPython 3.11, and rejects what is
  outside the fragment:
  \<^item> a float is the decimal numeral that denotes it, \<open>Decimal m k\<close> for \<open>m / 10 ^ k\<close> with
    \<open>k\<close> minimal; \<open>float(s)\<close> accepts an optional sign and digits with an optional point
    (no exponent, no \<^verbatim>\<open>inf\<close> or \<^verbatim>\<open>nan\<close>, no white space or underscores); the rounding of
    long numerals and of large ints to 53 bits is not modelled;
  \<^item> a datetime has a date, a time in whole seconds and an optional offset in minutes from
    UTC; \<open>fromisoformat\<close> accepts \<^verbatim>\<open>YYYY-MM-DDTHH:MM:SS\<close> and an optional \<^verbatim>\<open>+HH:MM\<close> or
    \<^verbatim>\<open>-HH:MM\<close>.
\<close>

datatype decimal = Decimal int nat

record datetime =
  year :: nat
  month :: nat
  day :: nat
  hour :: nat
  minute :: nat
  second :: nat
  utcoffset :: "int option"

definition digit_value :: "char \<Rightarrow> nat option" where
  "digit_value c =
     (let n = (of_char c :: nat) in if 48 \<le> n \<and> n \<le> 57 then Some (n - 48) else None)"

text \<open>The value of a non-empty string of digits, read after the digits that gave \<open>acc\<close>.\<close>

fun digits_from :: "nat \<Rightarrow> string \<Rightarrow> nat option" where
  "digits_from acc [] = Some acc"
| "digits_from acc (c # cs) =
     (case digit_value c of None \<Rightarrow> None | Some d \<Rightarrow> digits_from (10 * acc + d) cs)"

definition digits :: "string \<Rightarrow> nat option" where
  "digits s = (if s = [] then None else digits_from 0 s)"

definition digit_char :: "nat \<Rightarrow> char" where
  "digit_char n = ''0123456789'' ! (n mod 10)"

fun nat_str :: "nat \<Rightarrow> string" where
  "nat_str n = (if n < 10 then [digit_char n] else nat_str (n div 10) @ [digit_char n])"

declare nat_str.simps [simp del]

definition int_str :: "int \<Rightarrow> string" where
  "int_str i = (if i < 0 then ''-'' @ nat_str (nat (- i)) else nat_str (nat i))"

definition pad2 :: "nat \<Rightarrow> string" where
  "pad2 n = [digit_char (n div 10), digit_char n]"

definition pad4 :: "nat \<Rightarrow> string" where
  "pad4 n = [digit_char (n div 1000), digit_char (n div 100), digit_char (n div 10), digit_char n]"

subsection \<open>Floats\<close>

fun strip_zeros :: "int \<Rightarrow> nat \<Rightarrow> decimal" where
  "strip_zeros m 0 = Decimal m 0"
| "strip_zeros m (Suc k) =
     (if m mod 10 = 0 then strip_zeros (m div 10) k else Decimal m (Suc k))"

definition decimal_of_str :: "string \<Rightarrow> decimal option" where
  "decimal_of_str s =
     (let neg = (s \<noteq> [] \<and> hd s = CHR ''-'');
          r = (if s \<noteq> [] \<and> (hd s = CHR ''-'' \<or> hd s = CHR ''+'') then tl s else s);
          ip = takeWhile (\<lambda>c. c \<noteq> CHR ''.'') r;
          fp = drop (Suc (length ip)) r
      in case digits (ip @ fp) of
           None \<Rightarrow> None
         | Some m \<Rightarrow> Some (strip_zeros (if neg then - int m else int m) (length fp)))"

definition decimal_of_int :: "int \<Rightarrow> decimal option" where
  "decimal_of_int n = (if \<bar>n\<bar> < 2 ^ 1024 then Some (Decimal n 0) else None)"

definition decimal_repr :: "decimal \<Rightarrow> string" where
  "decimal_repr x =
     (case x of Decimal m k \<Rightarrow>
        (if m < 0 then ''-'' else [])
        @ nat_str (nat \<bar>m\<bar> div 10 ^ k) @ ''.''
        @ (if k = 0 then ''0''
           else replicate (k - length (nat_str (nat \<bar>m\<bar> mod 10 ^ k))) CHR ''0''
                @ nat_str (nat \<bar>m\<bar> mod 10 ^ k)))"

subsection \<open>Datetimes\<close>

definition days_in_month :: "nat \<Rightarrow> nat \<Rightarrow> nat" where
  "days_in_month y m =
     (if m = 2 then (if y mod 4 = 0 \<and> (y mod 100 \<noteq> 0 \<or> y mod 400 = 0) then 29 else 28)
      else if m = 4 \<or> m = 6 \<or> m = 9 \<or> m = 11 then 30 else 31)"

definition parse_offset :: "string \<Rightarrow> int option option" where
  "parse_offset s =
     (if s = [] then Some None
      else if length s = 6 \<and> (s ! 0 = CHR ''+'' \<or> s ! 0 = CHR ''-'') \<and> s ! 3 = CHR '':'' then
        Option.bind (digits (take 2 (drop 1 s))) (\<lambda>h.
        Option.bind (digits (drop 4 s)) (\<lambda>m.
          if h < 24 \<and> m < 60
          then Some (Some ((if s ! 0 = CHR ''-'' then - 1 else 1) * int (60 * h + m)))
          else None))
      else None)"

definition parse_datetime :: "string \<Rightarrow> datetime option" where
  "parse_datetime s =
     (if length s < 19 \<or> s ! 4 \<noteq> CHR ''-'' \<or> s ! 7 \<noteq> CHR ''-'' \<or> s ! 10 \<noteq> CHR ''T''
         \<or> s ! 13 \<noteq> CHR '':'' \<or> s ! 16 \<noteq> CHR '':'' then None
      else
        Option.bind (digits (take 4 s)) (\<lambda>y.
        Option.bind (digits (take 2 (drop 5 s))) (\<lambda>mo.
        Option.bind (digits (take 2 (drop 8 s))) (\<lambda>d.
        Option.bind (digits (take 2 (drop 11 s))) (\<lambda>h.
        Option.bind (digits (take 2 (drop 14 s))) (\<lambda>mi.
        Option.bind (digits (take 2 (drop 17 s))) (\<lambda>se.
        Option.bind (parse_offset (drop 19 s)) (\<lambda>off.
          Some \<lparr>year = y, month = mo, day = d, hour = h, minute = mi, second = se,
                utcoffset = off\<rparr>))))))))"

definition datetime_fromisoformat :: "string \<Rightarrow> string + datetime" where
  "datetime_fromisoformat s =
     (case parse_datetime s of
        None \<Rightarrow> Inl (''Invalid isoformat string: '' @ repr_str s)
      | Some d \<Rightarrow>
          if year d < 1 then Inl ''year 0 is out of range''
          else if month d < 1 \<or> 12 < month d then Inl ''month must be in 1..12''
          else if day d < 1 \<or> days_in_month (year d) (month d) < day d
            then Inl ''day is out of range for month''
          else if 23 < hour d then Inl ''hour must be in 0..23''
          else if 59 < minute d then Inl ''minute must be in 0..59''
          else if 59 < second d then Inl ''second must be in 0..59''
          else Inr d)"

definition datetime_isoformat :: "datetime \<Rightarrow> string" where
  "datetime_isoformat d =
     pad4 (year d) @ ''-'' @ pad2 (month d) @ ''-'' @ pad2 (day d) @ ''T''
     @ pad2 (hour d) @ '':'' @ pad2 (minute d) @ '':'' @ pad2 (second d)
     @ (case utcoffset d of
          None \<Rightarrow> []
        | Some off \<Rightarrow>
            (if off < 0 then ''-'' else ''+'')
            @ pad2 (nat \<bar>off\<bar> div 60) @ '':'' @ pad2 (nat \<bar>off\<bar> mod 60))"


subsection \<open>\<^verbatim>\<open>repr\<close> of the other objects\<close>

definition timedelta_repr :: "int \<Rightarrow> string" where
  "timedelta_repr off =
     ''datetime.timedelta(''
     @ (if off < 0 then ''days=-1, seconds='' @ int_str (86400 + 60 * off)
        else ''seconds='' @ int_str (60 * off))
     @ '')''"

definition datetime_repr :: "datetime \<Rightarrow> string" where
  "datetime_repr d =
     ''datetime.datetime('' @ nat_str (year d) @ '', '' @ nat_str (month d) @ '', ''
     @ nat_str (day d) @ '', '' @ nat_str (hour d) @ '', '' @ nat_str (minute d)
     @ (if second d = 0 then [] else '', '' @ nat_str (second d))
     @ (case utcoffset d of
          None \<Rightarrow> []
        | Some off \<Rightarrow>
            '', tzinfo=datetime.timezone''
            @ (if off = 0 then ''.utc'' else ''('' @ timedelta_repr off @ '')''))
     @ '')''"

fun join :: "string list \<Rightarrow> string" where
  "join [] = []"
| "join [x] = x"
| "join (x # y # ys) = x @ '', '' @ join (y # ys)"

fun small_repr :: "(decimal, datetime) pyval \<Rightarrow> string" where
  "small_repr PNone = ''None''"
| "small_repr (PBool b) = (if b then ''True'' else ''False'')"
| "small_repr (PInt n) = int_str n"
| "small_repr (PFloat x) = decimal_repr x"
| "small_repr (PStr s) = repr_str s"
| "small_repr (PList xs) = ''['' @ join (map small_repr xs) @ '']''"
| "small_repr (PDict kvs) =
     ''{'' @ join (map (\<lambda>kv. repr_str (fst kv) @ '': '' @ small_repr (snd kv)) kvs) @ ''}''"
| "small_repr (PDatetime d) = datetime_repr d"

definition small_lib :: "(decimal, datetime) pylib" where
  "small_lib =
     \<lparr>float_of_int = decimal_of_int,
      float_of_str = decimal_of_str,
      float_0_8 = Decimal 8 1,
      float_nonzero = (\<lambda>x. case x of Decimal m k \<Rightarrow> m \<noteq> 0),
      fromisoformat = datetime_fromisoformat,
      isoformat = datetime_isoformat,
      repr_nonstr = small_repr\<rparr>"

subsection \<open>Concrete requests and engines\<close>

text \<open>
  The request of the spec's section 8:
  \<^verbatim>\<open>{"anomaly_id":"anom_1","detected_at":"2024-12-16T14:05:30Z","metric_name":"error_rate",
   "metric_type":"error_rate","current_value":15.5,"baseline_value":2.3,"deviation_sigma":5.2,
   "deviation_percentage":574.0,"anomaly_type":"stability","severity":"high"}\<close>
\<close>

definition literal_fields :: "(string \<times> (decimal, datetime) pyval) list" where
  "literal_fields =
     [(''anomaly_id'', PStr ''anom_1''),
      (''detected_at'', PStr ''2024-12-16T14:05:30Z''),
      (''metric_name'', PStr ''error_rate''),
      (''metric_type'', PStr ''error_rate''),
      (''current_value'', PFloat (Decimal 155 1)),
      (''baseline_value'', PFloat (Decimal 23 1)),
      (''deviation_sigma'', PFloat (Decimal 52 1)),
      (''deviation_percentage'', PFloat (Decimal 574 0)),
      (''anomaly_type'', PStr ''stability''),
      (''severity'', PStr ''high'')]"

text \<open>The anomaly the handler builds from it (lemma \<open>literal_accepted\<close> below).\<close>

definition literal_anomaly :: "(decimal, datetime) Anomaly" where
  "literal_anomaly =
     \<lparr>anomaly_id = PStr ''anom_1'',
      detected_at = \<lparr>year = 2024, month = 12, day = 16, hour = 14, minute = 5,
                      second = 30, utcoffset = Some 0\<rparr>,
      metric_name = PStr ''error_rate'', metric_type = PStr ''error_rate'',
      current_value = Decimal 155 1, baseline_value = Decimal 23 1,
      deviation_sigma = Decimal 52 1, deviation_percentage = Decimal 574 0,
      anomaly_type = STABILITY, severity = HIGH,
      confidence = PFloat (Decimal 8 1), affected_resources = PList [],
      time_window = PDict [], related_metrics = PDict [], metadata = PDict []\<rparr>"

text \<open>A POST request with the given body, and the literal request with one key set.\<close>

definition post :: "(decimal, datetime) pyval \<Rightarrow> (decimal, datetime) request" where
  "post rj = \<lparr>http_method = ''POST'', get_json = rj\<rparr>"

definition literal_with ::
  "string \<Rightarrow> (decimal, datetime) pyval \<Rightarrow> (decimal, datetime) pyval" where
  "literal_with k v = PDict (AList.update k v literal_fields)"

text \<open>
  An engine that returns an analysis of the anomaly it is given, with the given summary,
  and an engine that raises the given exception.
\<close>

definition sample_analysis ::
  "HumanReadableSummary option \<Rightarrow> (decimal, datetime) Anomaly
     \<Rightarrow> (decimal, datetime) AnomalyAnalysis" where
  "sample_analysis s a =
     \<lparr>anomaly = a,
      root_cause = \<lparr>primary_cause = ''deploy'', contributing_factors = [],
                    rc_confidence = Decimal 9 1, evidence = [],
                    correlation_data = PDict []\<rparr>,
      recommendations = [],
      analyzed_at = \<lparr>year = 2024, month = 12, day = 16, hour = 14, minute = 5,
                     second = 35, utcoffset = None\<rparr>,
      analysis_duration_ms = 5000,
      ai_model_used = ''model'',
      historical_context = [],
      trend_analysis = [],
      predicted_impact = [],
      summary = s\<rparr>"

definition sample_engine ::
  "HumanReadableSummary option \<Rightarrow> (decimal, datetime) Anomaly
     \<Rightarrow> exn + (decimal, datetime) AnomalyAnalysis" where
  "sample_engine s a = Inr (sample_analysis s a)"

definition raising_engine ::
  "exn \<Rightarrow> (decimal, datetime) Anomaly \<Rightarrow> exn + (decimal, datetime) AnomalyAnalysis" where
  "raising_engine e a = Inl e"

definition empty_summary :: HumanReadableSummary where
  "empty_summary =
     \<lparr>what_happened = [], why_it_happened = [], what_is_the_impact = [],
      what_improvements_can_be_made = [], estimated_benefit_if_implemented = []\<rparr>"


section \<open>Facts about the handler\<close>

lemma ebind_Inr_iff: "ebind m k = Inr y \<longleftrightarrow> (\<exists>x. m = Inr x \<and> k x = Inr y)"
  by (cases m) (simp_all add: ebind_def)

lemma ebind_Inr [simp]: "ebind (Inr x) k = k x"
  by (simp add: ebind_def)

lemma ebind_Inl [simp]: "ebind (Inl e) k = Inl e"
  by (simp add: ebind_def)

lemma not_in_request_dict:
  "not_in_request fs (PDict kvs) = Inr [f \<leftarrow> fs. f \<notin> fst ` set kvs]"
  by (induction fs) simp_all

lemma py_getitem_Inr_iff:
  "py_getitem (PDict kvs) k = Inr v \<longleftrightarrow> map_of kvs k = Some v"
  by (simp split: option.splits)

lemma py_replace_Z_Inr_iff: "py_replace_Z v = Inr s \<longleftrightarrow> (\<exists>t. v = PStr t \<and> s = replace_Z t)"
  by (cases v) auto

lemma py_fromisoformat_Inr_iff: "py_fromisoformat L s = Inr d \<longleftrightarrow> fromisoformat L s = Inr d"
  by (simp add: py_fromisoformat_def split: sum.splits)

lemma build_anomaly_Inr_iff:
  "build_anomaly L (PDict kvs) = Inr a \<longleftrightarrow>
     map_of kvs ''anomaly_id'' = Some (anomaly_id a) \<and>
     (\<exists>ts. map_of kvs ''detected_at'' = Some (PStr ts)
           \<and> fromisoformat L (replace_Z ts) = Inr (detected_at a)) \<and>
     map_of kvs ''metric_name'' = Some (metric_name a) \<and>
     map_of kvs ''metric_type'' = Some (metric_type a) \<and>
     (\<exists>v. map_of kvs ''current_value'' = Some v \<and> py_float L v = Inr (current_value a)) \<and>
     (\<exists>v. map_of kvs ''baseline_value'' = Some v \<and> py_float L v = Inr (baseline_value a)) \<and>
     (\<exists>v. map_of kvs ''deviation_sigma'' = Some v \<and> py_float L v = Inr (deviation_sigma a)) \<and>
     (\<exists>v. map_of kvs ''deviation_percentage'' = Some v
          \<and> py_float L v = Inr (deviation_percentage a)) \<and>
     (\<exists>v. map_of kvs ''anomaly_type'' = Some v \<and> AnomalyType_call L v = Inr (anomaly_type a)) \<and>
     (\<exists>v. map_of kvs ''severity'' = Some v \<and> Severity_call L v = Inr (severity a)) \<and>
     confidence a = (case map_of kvs ''confidence'' of None \<Rightarrow> PFloat (float_0_8 L) | Some v \<Rightarrow> v) \<and>
     affected_resources a = (case map_of kvs ''affected_resources'' of None \<Rightarrow> PList [] | Some v \<Rightarrow> v) \<and>
     time_window a = (case map_of kvs ''time_window'' of None \<Rightarrow> PDict [] | Some v \<Rightarrow> v) \<and>
     related_metrics a = (case map_of kvs ''related_metrics'' of None \<Rightarrow> PDict [] | Some v \<Rightarrow> v) \<and>
     metadata a = (case map_of kvs ''metadata'' of None \<Rightarrow> PDict [] | Some v \<Rightarrow> v)"
  unfolding build_anomaly_def ebind_Inr_iff py_getitem_Inr_iff py_replace_Z_Inr_iff
    py_fromisoformat_Inr_iff py_get.simps
  by (cases a) auto

text \<open>A request the validator accepts has the ten required keys.\<close>

lemma build_anomaly_keys:
  assumes "build_anomaly L (PDict kvs) = Inr a"
  shows "set required_fields \<subseteq> fst ` set kvs"
proof -
  have "map_of kvs k = Some v \<Longrightarrow> k \<in> fst ` set kvs" for k v
    by (metis map_of_eq_None_iff option.distinct(1))
  with assms show ?thesis
    unfolding build_anomaly_Inr_iff required_fields_def by auto
qed

lemma try_body_dict:
  assumes "set required_fields \<subseteq> fst ` set kvs"
  shows "try_body L engine (PDict kvs) =
     (case build_anomaly L (PDict kvs) of
        Inl e \<Rightarrow> (Inl e, [])
      | Inr a \<Rightarrow>
          (case engine a of
             Inl e \<Rightarrow> (Inl e, [a])
           | Inr analysis \<Rightarrow>
               (ebind (json_dumps (PDict (response_data L analysis))) (\<lambda>b.
                  Inr \<lparr>body = b, status = 200, headers = main_headers\<rparr>), [a])))"
proof -
  have ne: "kvs \<noteq> []"
    using assms by (auto simp: required_fields_def)
  have "[f \<leftarrow> required_fields. f \<notin> fst ` set kvs] = []"
    using assms by (auto simp: filter_empty_conv)
  then show ?thesis
    using ne by (simp add: try_body_def not_in_request_dict)
qed

lemma analyze_anomaly_dict:
  assumes "http_method request \<noteq> ''OPTIONS''" and "get_json request = PDict kvs"
    and "set required_fields \<subseteq> fst ` set kvs"
  shows "analyze_anomaly L engine request =
     (case build_anomaly L (PDict kvs) of
        Inl e \<Rightarrow> (except_clauses e, [])
      | Inr a \<Rightarrow>
          (case engine a of
             Inl e \<Rightarrow> (except_clauses e, [a])
           | Inr analysis \<Rightarrow>
               (case json_dumps (PDict (response_data L analysis)) of
                  Inl e \<Rightarrow> (except_clauses e, [a])
                | Inr b \<Rightarrow> (Inr \<lparr>body = b, status = 200, headers = main_headers\<rparr>, [a]))))"
  using assms(1,2)
  by (simp add: analyze_anomaly_def try_body_dict[OF assms(3)] split: sum.splits)


section \<open>The claims\<close>

subsection \<open>C1: missing required fields\<close>

text \<open>
  C1, as stated, fails: a body that is the empty JSON object lacks all ten required keys,
  but the guard \<^verbatim>\<open>if not request_json\<close> answers it first, with the envelope
  \<^verbatim>\<open>{error: "Invalid request", message: "Request body must be JSON"}\<close>, which has no
  \<^verbatim>\<open>missing\<close> and no \<^verbatim>\<open>required\<close> sequence.
\<close>

theorem empty_object_is_invalid_request:
  "analyze_anomaly small_lib (sample_engine None) (post (PDict [])) =
     (Inr \<lparr>body = JsonText (PDict
          [(''error'', PStr ''Invalid request''),
           (''message'', PStr ''Request body must be JSON'')]),
       status = 400, headers = main_headers\<rparr>, [])"
  by (simp add: analyze_anomaly_def try_body_def post_def)

text \<open>
  C1, amended: for every request (other than a preflight) whose body is a non-empty JSON
  object that lacks one or more of the ten required keys, the handler returns status 400
  with the envelope \<^verbatim>\<open>{error: "Missing required fields", missing, required}\<close>, where
  \<^verbatim>\<open>missing\<close> lists, in the order of the required list, exactly the required keys that
  are absent, and \<^verbatim>\<open>required\<close> is the full required list; the analysis engine is not
  invoked.
\<close>

theorem missing_fields_reported:
  assumes "http_method request \<noteq> ''OPTIONS''"
    and "get_json request = PDict kvs"
    and "kvs \<noteq> []"
    and "\<not> set required_fields \<subseteq> fst ` set kvs"
  shows "analyze_anomaly L engine request =
           (Inr \<lparr>body = JsonText (PDict
                [(''error'', PStr ''Missing required fields''),
                 (''missing'', PList (map PStr [f \<leftarrow> required_fields. f \<notin> fst ` set kvs])),
                 (''required'', PList (map PStr required_fields))]),
             status = 400, headers = main_headers\<rparr>, [])
         \<and> set [f \<leftarrow> required_fields. f \<notin> fst ` set kvs] = set required_fields - fst ` set kvs"
proof -
  have "[f \<leftarrow> required_fields. f \<notin> fst ` set kvs] \<noteq> []"
    using assms(4) by (auto simp: filter_empty_conv)
  then show ?thesis
    using assms(1-3) by (auto simp: analyze_anomaly_def try_body_def not_in_request_dict)
qed

theorem missing_fields_reported_witness:
  "analyze_anomaly small_lib (sample_engine None)
     (post (PDict [(''anomaly_id'', PStr ''anom_1''), (''severity'', PStr ''high'')])) =
     (Inr \<lparr>body = JsonText (PDict
          [(''error'', PStr ''Missing required fields''),
           (''missing'', PList (map PStr
              [''detected_at'', ''metric_name'', ''metric_type'', ''current_value'',
               ''baseline_value'', ''deviation_sigma'', ''deviation_percentage'',
               ''anomaly_type''])),
           (''required'', PList (map PStr required_fields))]),
       status = 400, headers = main_headers\<rparr>, [])"
  using missing_fields_reported
    [of "post (PDict [(''anomaly_id'', PStr ''anom_1''), (''severity'', PStr ''high'')])"
        "[(''anomaly_id'', PStr ''anom_1''), (''severity'', PStr ''high'')]"
        small_lib "sample_engine None"]
  by (simp add: post_def required_fields_def)

subsection \<open>C2: values outside the enumerations\<close>

lemma AnomalyType_call_invalid:
  assumes "t \<notin> {''stability'', ''performance'', ''cost'', ''resource'', ''unknown''}"
  shows "AnomalyType_call L (PStr t) =
           Inl (ValueError (repr_str t @ '' is not a valid AnomalyType''))"
  using assms
  by (auto simp: AnomalyType_call_def enum_call_def AnomalyType_members_def py_repr_def)

lemma Severity_call_invalid:
  assumes "s \<notin> {''critical'', ''high'', ''medium'', ''low'', ''info''}"
  shows "Severity_call L (PStr s) =
           Inl (ValueError (repr_str s @ '' is not a valid Severity''))"
  using assms
  by (auto simp: Severity_call_def enum_call_def Severity_members_def py_repr_def)

text \<open>An accepted request with one key set to another value.\<close>

lemma update_keys:
  assumes "set required_fields \<subseteq> fst ` set kvs"
  shows "set required_fields \<subseteq> fst ` set (AList.update k v kvs)"
  using assms by (auto simp: dom_update)

lemma build_anomaly_InrD:
  assumes "build_anomaly L (PDict kvs) = Inr a"
  obtains ts cv bv ds dp aty sev where
    "map_of kvs ''anomaly_id'' = Some (anomaly_id a)"
    "map_of kvs ''detected_at'' = Some (PStr ts)"
    "fromisoformat L (replace_Z ts) = Inr (detected_at a)"
    "map_of kvs ''metric_name'' = Some (metric_name a)"
    "map_of kvs ''metric_type'' = Some (metric_type a)"
    "map_of kvs ''current_value'' = Some cv" "py_float L cv = Inr (current_value a)"
    "map_of kvs ''baseline_value'' = Some bv" "py_float L bv = Inr (baseline_value a)"
    "map_of kvs ''deviation_sigma'' = Some ds" "py_float L ds = Inr (deviation_sigma a)"
    "map_of kvs ''deviation_percentage'' = Some dp"
    "py_float L dp = Inr (deviation_percentage a)"
    "map_of kvs ''anomaly_type'' = Some aty" "AnomalyType_call L aty = Inr (anomaly_type a)"
    "map_of kvs ''severity'' = Some sev" "Severity_call L sev = Inr (severity a)"
  using assms unfolding build_anomaly_Inr_iff by (elim conjE exE) (rule that)

lemma build_anomaly_update_float:
  assumes ok: "build_anomaly L (PDict kvs) = Inr a"
    and k: "k \<in> {''current_value'', ''baseline_value'', ''deviation_sigma'', ''deviation_percentage''}"
    and bad: "py_float L v = Inl e"
  shows "build_anomaly L (PDict (AList.update k v kvs)) = Inl e"
proof -
  from ok obtain ts cv bv ds dp aty sev where m:
    "map_of kvs ''anomaly_id'' = Some (anomaly_id a)"
    "map_of kvs ''detected_at'' = Some (PStr ts)"
    "fromisoformat L (replace_Z ts) = Inr (detected_at a)"
    "map_of kvs ''metric_name'' = Some (metric_name a)"
    "map_of kvs ''metric_type'' = Some (metric_type a)"
    "map_of kvs ''current_value'' = Some cv" "py_float L cv = Inr (current_value a)"
    "map_of kvs ''baseline_value'' = Some bv" "py_float L bv = Inr (baseline_value a)"
    "map_of kvs ''deviation_sigma'' = Some ds" "py_float L ds = Inr (deviation_sigma a)"
    "map_of kvs ''deviation_percentage'' = Some dp"
    "py_float L dp = Inr (deviation_percentage a)"
    by (rule build_anomaly_InrD)
  from k consider "k = ''current_value''" | "k = ''baseline_value''"
    | "k = ''deviation_sigma''" | "k = ''deviation_percentage''"
    by auto
  then show ?thesis
  proof cases
    case 1
    then show ?thesis using m bad
      by (simp add: build_anomaly_def update_conv' py_fromisoformat_def)
  next
    case 2
    then show ?thesis using m bad
      by (simp add: build_anomaly_def update_conv' py_fromisoformat_def)
  next
    case 3
    then show ?thesis using m bad
      by (simp add: build_anomaly_def update_conv' py_fromisoformat_def)
  next
    case 4
    then show ?thesis using m bad
      by (simp add: build_anomaly_def update_conv' py_fromisoformat_def)
  qed
qed


lemma build_anomaly_update_anomaly_type:
  assumes ok: "build_anomaly L (PDict kvs) = Inr a"
    and bad: "AnomalyType_call L v = Inl e"
  shows "build_anomaly L (PDict (AList.update ''anomaly_type'' v kvs)) = Inl e"
proof -
  from ok obtain ts cv bv ds dp aty sev where m:
    "map_of kvs ''anomaly_id'' = Some (anomaly_id a)"
    "map_of kvs ''detected_at'' = Some (PStr ts)"
    "fromisoformat L (replace_Z ts) = Inr (detected_at a)"
    "map_of kvs ''metric_name'' = Some (metric_name a)"
    "map_of kvs ''metric_type'' = Some (metric_type a)"
    "map_of kvs ''current_value'' = Some cv" "py_float L cv = Inr (current_value a)"
    "map_of kvs ''baseline_value'' = Some bv" "py_float L bv = Inr (baseline_value a)"
    "map_of kvs ''deviation_sigma'' = Some ds" "py_float L ds = Inr (deviation_sigma a)"
    "map_of kvs ''deviation_percentage'' = Some dp"
    "py_float L dp = Inr (deviation_percentage a)"
    by (rule build_anomaly_InrD)
  then show ?thesis using bad
    by (simp add: build_anomaly_def update_conv' py_fromisoformat_def)
qed

lemma build_anomaly_update_severity:
  assumes ok: "build_anomaly L (PDict kvs) = Inr a"
    and bad: "Severity_call L v = Inl e"
  shows "build_anomaly L (PDict (AList.update ''severity'' v kvs)) = Inl e"
proof -
  from ok obtain ts cv bv ds dp aty sev where m:
    "map_of kvs ''anomaly_id'' = Some (anomaly_id a)"
    "map_of kvs ''detected_at'' = Some (PStr ts)"
    "fromisoformat L (replace_Z ts) = Inr (detected_at a)"
    "map_of kvs ''metric_name'' = Some (metric_name a)"
    "map_of kvs ''metric_type'' = Some (metric_type a)"
    "map_of kvs ''current_value'' = Some cv" "py_float L cv = Inr (current_value a)"
    "map_of kvs ''baseline_value'' = Some bv" "py_float L bv = Inr (baseline_value a)"
    "map_of kvs ''deviation_sigma'' = Some ds" "py_float L ds = Inr (deviation_sigma a)"
    "map_of kvs ''deviation_percentage'' = Some dp"
    "py_float L dp = Inr (deviation_percentage a)"
    "map_of kvs ''anomaly_type'' = Some aty" "AnomalyType_call L aty = Inr (anomaly_type a)"
    by (rule build_anomaly_InrD)
  then show ?thesis using bad
    by (simp add: build_anomaly_def update_conv' py_fromisoformat_def)
qed

lemma analyze_anomaly_build_fails:
  assumes "http_method request \<noteq> ''OPTIONS''"
    and "set required_fields \<subseteq> fst ` set kvs"
    and "build_anomaly L (PDict kvs) = Inl e"
  shows "analyze_anomaly L engine (request\<lparr>get_json := PDict kvs\<rparr>) = (except_clauses e, [])"
  using assms(1,3) by (simp add: analyze_anomaly_dict[OF _ _ assms(2)])

text \<open>The request of the spec's section 8 is accepted.\<close>

lemma literal_detected_at:
  "datetime_fromisoformat (replace_Z ''2024-12-16T14:05:30Z'') =
     Inr \<lparr>year = 2024, month = 12, day = 16, hour = 14, minute = 5, second = 30,
          utcoffset = Some 0\<rparr>"
  by (simp add: replace_Z_def datetime_fromisoformat_def parse_datetime_def parse_offset_def
      digits_def digit_value_def days_in_month_def)

lemma literal_accepted:
  "build_anomaly small_lib (PDict literal_fields) = Inr literal_anomaly"
  by (simp add: build_anomaly_def literal_fields_def literal_anomaly_def small_lib_def
      literal_detected_at py_fromisoformat_def AnomalyType_call_def Severity_call_def
      enum_call_def AnomalyType_members_def Severity_members_def)

text \<open>
  C2, as stated, fails. For the request of section 8 with \<^verbatim>\<open>"severity":"extreme"\<close> the
  answer is the validation envelope, but its message is the one of the \<^verbatim>\<open>Enum\<close> lookup,
  \<^verbatim>\<open>'extreme' is not a valid Severity\<close>: it names the enumeration class and quotes the
  value; the field key \<^verbatim>\<open>severity\<close> does not occur in it. And the validation envelope is
  the answer only when the rest of the request is accepted: with \<^verbatim>\<open>"current_value":null\<close>
  as well, \<^verbatim>\<open>float()\<close> raises \<^verbatim>\<open>TypeError\<close> before the enumeration is looked up, and
  the answer is the internal-server-error envelope.
\<close>

theorem enum_message_lacks_field_name:
  "analyze_anomaly small_lib (sample_engine None)
     (post (literal_with ''severity'' (PStr ''extreme''))) =
     (Inr \<lparr>body = JsonText (PDict
          [(''error'', PStr ''Validation error''),
           (''message'', PStr (quoted ''extreme'' @ '' is not a valid Severity''))]),
       status = 400, headers = main_headers\<rparr>, [])
   \<and> \<not> sublist ''severity'' (quoted ''extreme'' @ '' is not a valid Severity'')
   \<and> analyze_anomaly small_lib (sample_engine None)
       (post (PDict (AList.update ''current_value'' PNone
                       (AList.update ''severity'' (PStr ''extreme'') literal_fields)))) =
     (Inr \<lparr>body = JsonText (PDict
          [(''error'', PStr ''Internal server error''),
           (''message'', PStr (''float() argument must be a string or a real number, not ''
                               @ quoted ''NoneType'')),
           (''type'', PStr ''TypeError'')]),
       status = 500, headers = main_headers\<rparr>, [])"
proof -
  have keys: "set required_fields \<subseteq> fst ` set (AList.update ''severity'' v literal_fields)"
    for v :: "(decimal, datetime) pyval"
    by (simp add: required_fields_def literal_fields_def)
  have keys2: "set required_fields \<subseteq> fst ` set (AList.update ''current_value'' PNone
                  (AList.update ''severity'' (PStr ''extreme'') literal_fields))"
    by (simp add: required_fields_def literal_fields_def)
  have 1: "build_anomaly small_lib (PDict (AList.update ''severity'' (PStr ''extreme'') literal_fields))
             = Inl (ValueError (repr_str ''extreme'' @ '' is not a valid Severity''))"
    by (rule build_anomaly_update_severity[OF literal_accepted])
       (rule Severity_call_invalid, simp)
  have 2: "build_anomaly small_lib (PDict (AList.update ''current_value'' PNone
                  (AList.update ''severity'' (PStr ''extreme'') literal_fields)))
             = Inl (TypeError (''float() argument must be a string or a real number, not ''
                               @ quoted ''NoneType''))"
    by (simp add: build_anomaly_def literal_fields_def small_lib_def literal_detected_at
        py_fromisoformat_def)
  have 3: "\<not> sublist ''severity'' (quoted ''extreme'' @ '' is not a valid Severity'')"
    by (simp add: quoted_def sublist_Cons_right)
  show ?thesis
    using analyze_anomaly_build_fails[where request = "post (PDict [])", OF _ keys 1]
      analyze_anomaly_build_fails[where request = "post (PDict [])", OF _ keys2 2] 3
    by (simp add: post_def literal_with_def except_clauses_def ValueError_def TypeError_def
        repr_str_def repr_char_def quoted_def Let_def)
qed

text \<open>
  C2, amended: take any request the validator accepts, and set its \<^verbatim>\<open>anomaly_type\<close> (or its
  \<^verbatim>\<open>severity\<close>) to a string outside the enumeration. The handler then answers with status
  400 and the envelope \<^verbatim>\<open>{error: "Validation error", message}\<close>, where the message is the
  \<^verbatim>\<open>repr\<close> of the invalid value followed by \<^verbatim>\<open>is not a valid AnomalyType\<close> (or
  \<^verbatim>\<open>is not a valid Severity\<close>): it names the enumeration class of the field and quotes the
  value. No default member is substituted, and the engine is not invoked.
\<close>

theorem invalid_enum_value_rejected:
  assumes "http_method request \<noteq> ''OPTIONS''"
    and "build_anomaly L (PDict kvs) = Inr a"
  shows "(t \<notin> {''stability'', ''performance'', ''cost'', ''resource'', ''unknown''} \<longrightarrow>
            analyze_anomaly L engine
              (request\<lparr>get_json := PDict (AList.update ''anomaly_type'' (PStr t) kvs)\<rparr>) =
            (Inr \<lparr>body = JsonText (PDict
                 [(''error'', PStr ''Validation error''),
                  (''message'', PStr (repr_str t @ '' is not a valid AnomalyType''))]),
              status = 400, headers = main_headers\<rparr>, []))
       \<and> (s \<notin> {''critical'', ''high'', ''medium'', ''low'', ''info''} \<longrightarrow>
            analyze_anomaly L engine
              (request\<lparr>get_json := PDict (AList.update ''severity'' (PStr s) kvs)\<rparr>) =
            (Inr \<lparr>body = JsonText (PDict
                 [(''error'', PStr ''Validation error''),
                  (''message'', PStr (repr_str s @ '' is not a valid Severity''))]),
              status = 400, headers = main_headers\<rparr>, []))"
proof -
  note keys = update_keys[OF build_anomaly_keys[OF assms(2)]]
  have "analyze_anomaly L engine
          (request\<lparr>get_json := PDict (AList.update ''anomaly_type'' (PStr t) kvs)\<rparr>) =
        (except_clauses (ValueError (repr_str t @ '' is not a valid AnomalyType'')), [])"
    if "t \<notin> {''stability'', ''performance'', ''cost'', ''resource'', ''unknown''}"
    by (rule analyze_anomaly_build_fails[OF assms(1) keys])
       (rule build_anomaly_update_anomaly_type[OF assms(2) AnomalyType_call_invalid[OF that]])
  moreover have "analyze_anomaly L engine
          (request\<lparr>get_json := PDict (AList.update ''severity'' (PStr s) kvs)\<rparr>) =
        (except_clauses (ValueError (repr_str s @ '' is not a valid Severity'')), [])"
    if "s \<notin> {''critical'', ''high'', ''medium'', ''low'', ''info''}"
    by (rule analyze_anomaly_build_fails[OF assms(1) keys])
       (rule build_anomaly_update_severity[OF assms(2) Severity_call_invalid[OF that]])
  ultimately show ?thesis
    by (simp add: except_clauses_def ValueError_def)
qed

text \<open>
  The request of section 8 with \<^verbatim>\<open>"anomaly_type":"weird"\<close>, and with
  \<^verbatim>\<open>"severity":"extreme"\<close>.
\<close>

theorem invalid_enum_value_rejected_witness:
  "analyze_anomaly small_lib (sample_engine None)
     (post (literal_with ''anomaly_type'' (PStr ''weird''))) =
     (Inr \<lparr>body = JsonText (PDict
          [(''error'', PStr ''Validation error''),
           (''message'', PStr (quoted ''weird'' @ '' is not a valid AnomalyType''))]),
       status = 400, headers = main_headers\<rparr>, [])
   \<and> analyze_anomaly small_lib (sample_engine None)
     (post (literal_with ''severity'' (PStr ''extreme''))) =
     (Inr \<lparr>body = JsonText (PDict
          [(''error'', PStr ''Validation error''),
           (''message'', PStr (quoted ''extreme'' @ '' is not a valid Severity''))]),
       status = 400, headers = main_headers\<rparr>, [])"
  using invalid_enum_value_rejected
    [where request = "post (PDict literal_fields)" and L = small_lib and kvs = literal_fields
       and engine = "sample_engine None" and s = "''extreme''" and t = "''weird''",
     OF _ literal_accepted]
  by (simp add: post_def literal_with_def repr_str_def repr_char_def quoted_def Let_def)

subsection \<open>C3: the engine raises\<close>

text \<open>
  What holds: for a request the validator accepts and an engine that raises, the handler
  answers with status 500 and the envelope \<^verbatim>\<open>{error: "Internal server error", message, type}\<close>
  when the exception derives from \<^verbatim>\<open>Exception\<close> and is not a \<^verbatim>\<open>ValueError\<close>; an exception
  that does not derive from \<^verbatim>\<open>Exception\<close> leaves the handler. The engine was invoked once.
\<close>

lemma engine_exception_gives_500:
  assumes "http_method request \<noteq> ''OPTIONS''"
    and "get_json request = PDict kvs"
    and "build_anomaly L (PDict kvs) = Inr a"
    and "engine a = Inl e"
    and "is_Exception e" and "\<not> is_ValueError e"
  shows "analyze_anomaly L engine request =
           (Inr \<lparr>body = JsonText (PDict
                  [(''error'', PStr ''Internal server error''),
                   (''message'', PStr (exc_message e)),
                   (''type'', PStr (exc_type e))]),
                status = 500, headers = main_headers\<rparr>, [a])"
  using assms(3-6)
  by (simp add: analyze_anomaly_dict[OF assms(1,2) build_anomaly_keys[OF assms(3)]]
      except_clauses_def)

lemma engine_base_exception_propagates:
  assumes "http_method request \<noteq> ''OPTIONS''"
    and "get_json request = PDict kvs"
    and "build_anomaly L (PDict kvs) = Inr a"
    and "engine a = Inl e"
    and "\<not> is_Exception e" and "\<not> is_ValueError e"
  shows "analyze_anomaly L engine request = (Inl e, [a])"
  using assms(3-6)
  by (simp add: analyze_anomaly_dict[OF assms(1,2) build_anomaly_keys[OF assms(3)]]
      except_clauses_def)

text \<open>
  C3 on the code: the engine call stands inside the same \<^verbatim>\<open>try\<close> statement as the
  validation, whose first clause is \<^verbatim>\<open>except ValueError\<close>. For the request of section 8
  (well-formed) and an engine that raises \<^verbatim>\<open>ValueError("bad")\<close>, the handler answers with
  status 400 and the envelope \<^verbatim>\<open>{error: "Validation error", message}\<close>, with no \<^verbatim>\<open>type\<close>
  key, instead of the internal-server-error envelope that C3 states for every exception
  class and that the handler returns for the other exceptions of the engine.
\<close>

theorem engine_raises_ValueError_gives_400:
  "analyze_anomaly small_lib (raising_engine (ValueError ''bad'')) (post (PDict literal_fields)) =
     (Inr \<lparr>body = JsonText (PDict
          [(''error'', PStr ''Validation error''),
           (''message'', PStr ''bad'')]),
       status = 400, headers = main_headers\<rparr>,
      [literal_anomaly])"
proof -
  have keys: "set required_fields \<subseteq> fst ` set literal_fields"
    by (simp add: required_fields_def literal_fields_def)
  show ?thesis
    by (simp add: analyze_anomaly_dict[OF _ _ keys] post_def literal_accepted
        raising_engine_def except_clauses_def ValueError_def)
qed

subsection \<open>C4: numeric fields that do not coerce\<close>

lemma py_float_str_rejected:
  assumes "float_of_str L s = None"
  shows "py_float L (PStr s) =
           Inl (ValueError (''could not convert string to float: '' @ repr_str s))"
  using assms by simp

text \<open>
  C4, as stated, fails twice on the request of section 8. With \<^verbatim>\<open>"current_value":"abc"\<close>
  the answer is the validation envelope, but its message is the one of \<^verbatim>\<open>float()\<close>,
  \<^verbatim>\<open>could not convert string to float: 'abc'\<close>: it quotes the value and does not name the
  field. With \<^verbatim>\<open>"current_value":null\<close> the conversion raises \<^verbatim>\<open>TypeError\<close>, and the
  answer is the internal-server-error envelope with status 500.
\<close>

theorem non_numeric_values_counterexample:
  "analyze_anomaly small_lib (sample_engine None)
     (post (literal_with ''current_value'' (PStr ''abc''))) =
     (Inr \<lparr>body = JsonText (PDict
          [(''error'', PStr ''Validation error''),
           (''message'', PStr (''could not convert string to float: '' @ quoted ''abc''))]),
       status = 400, headers = main_headers\<rparr>, [])
   \<and> analyze_anomaly small_lib (sample_engine None)
     (post (literal_with ''current_value'' PNone)) =
     (Inr \<lparr>body = JsonText (PDict
          [(''error'', PStr ''Internal server error''),
           (''message'', PStr (''float() argument must be a string or a real number, not ''
                               @ quoted ''NoneType'')),
           (''type'', PStr ''TypeError'')]),
       status = 500, headers = main_headers\<rparr>, [])"
proof -
  have keys: "set required_fields \<subseteq> fst ` set (AList.update ''current_value'' v literal_fields)"
    for v :: "(decimal, datetime) pyval"
    by (simp add: required_fields_def literal_fields_def)
  have abc: "decimal_of_str ''abc'' = None"
    by (simp add: decimal_of_str_def digits_def digit_value_def)
  have 1: "build_anomaly small_lib (PDict (AList.update ''current_value'' (PStr ''abc'') literal_fields))
             = Inl (ValueError (''could not convert string to float: '' @ repr_str ''abc''))"
    by (rule build_anomaly_update_float[OF literal_accepted])
       (simp_all add: small_lib_def abc)
  have 2: "build_anomaly small_lib (PDict (AList.update ''current_value'' PNone literal_fields))
             = Inl (TypeError (''float() argument must be a string or a real number, not ''
                               @ quoted ''NoneType''))"
    by (rule build_anomaly_update_float[OF literal_accepted]) simp_all
  show ?thesis
    using analyze_anomaly_build_fails[where request = "post (PDict [])", OF _ keys 1]
      analyze_anomaly_build_fails[where request = "post (PDict [])", OF _ keys 2]
    by (simp add: post_def literal_with_def except_clauses_def ValueError_def TypeError_def
        repr_str_def repr_char_def quoted_def Let_def)
qed

text \<open>
  C4, amended: take any request the validator accepts, and set one of its four numeric
  fields to a string that \<^verbatim>\<open>float()\<close> rejects. The handler then answers with status 400
  and the envelope \<^verbatim>\<open>{error: "Validation error", message}\<close>, where the message is
  \<^verbatim>\<open>could not convert string to float: \<close> followed by the \<^verbatim>\<open>repr\<close> of the value (the same
  message whichever of the four fields holds the value); the engine is not invoked.
\<close>

theorem rejected_float_string_response:
  assumes "http_method request \<noteq> ''OPTIONS''"
    and "build_anomaly L (PDict kvs) = Inr a"
    and "k \<in> {''current_value'', ''baseline_value'', ''deviation_sigma'',
               ''deviation_percentage''}"
    and "float_of_str L s = None"
  shows "analyze_anomaly L engine (request\<lparr>get_json := PDict (AList.update k (PStr s) kvs)\<rparr>) =
           (Inr \<lparr>body = JsonText (PDict
                [(''error'', PStr ''Validation error''),
                 (''message'', PStr (''could not convert string to float: '' @ repr_str s))]),
             status = 400, headers = main_headers\<rparr>, [])"
proof -
  have "build_anomaly L (PDict (AList.update k (PStr s) kvs)) =
          Inl (ValueError (''could not convert string to float: '' @ repr_str s))"
    by (rule build_anomaly_update_float[OF assms(2,3) py_float_str_rejected[OF assms(4)]])
  from analyze_anomaly_build_fails[OF assms(1) update_keys[OF build_anomaly_keys[OF assms(2)]] this]
  show ?thesis
    by (simp add: except_clauses_def ValueError_def)
qed

theorem rejected_float_string_response_witness:
  "analyze_anomaly small_lib (sample_engine None)
     (post (literal_with ''deviation_sigma'' (PStr ''five''))) =
     (Inr \<lparr>body = JsonText (PDict
          [(''error'', PStr ''Validation error''),
           (''message'', PStr (''could not convert string to float: '' @ quoted ''five''))]),
       status = 400, headers = main_headers\<rparr>, [])"
proof -
  have "float_of_str small_lib ''five'' = None"
    by (simp add: small_lib_def decimal_of_str_def digits_def digit_value_def)
  from rejected_float_string_response
    [where request = "post (PDict literal_fields)" and engine = "sample_engine None"
       and k = "''deviation_sigma''", OF _ literal_accepted _ this]
  show ?thesis
    by (simp add: post_def literal_with_def repr_str_def repr_char_def quoted_def Let_def)
qed

text \<open>
  A value of a type \<^verbatim>\<open>float()\<close> does not take (null, a list, an object) in a numeric
  field of an otherwise accepted request: \<^verbatim>\<open>TypeError\<close>, which only the clause
  \<^verbatim>\<open>except Exception\<close> catches.
\<close>

lemma wrong_type_float_response:
  assumes "http_method request \<noteq> ''OPTIONS''"
    and "build_anomaly L (PDict kvs) = Inr a"
    and "k \<in> {''current_value'', ''baseline_value'', ''deviation_sigma'',
               ''deviation_percentage''}"
    and "v = PNone \<or> v = PList xs \<or> v = PDict d"
  shows "analyze_anomaly L engine (request\<lparr>get_json := PDict (AList.update k v kvs)\<rparr>) =
           (Inr \<lparr>body = JsonText (PDict
                [(''error'', PStr ''Internal server error''),
                 (''message'', PStr (''float() argument must be a string or a real number, not ''
                                     @ quoted (type_name v))),
                 (''type'', PStr ''TypeError'')]),
             status = 500, headers = main_headers\<rparr>, [])"
proof -
  have "py_float L v = Inl (TypeError (''float() argument must be a string or a real number, not ''
                                     @ quoted (type_name v)))"
    using assms(4) by auto
  from analyze_anomaly_build_fails[OF assms(1) update_keys[OF build_anomaly_keys[OF assms(2)]]
      build_anomaly_update_float[OF assms(2,3) this]]
  show ?thesis
    by (simp add: except_clauses_def TypeError_def)
qed


subsection \<open>C5: the human-readable summary\<close>

text \<open>A response with status 200 comes from the end of the try body.\<close>

lemma except_clauses_status: "except_clauses e = Inr r \<Longrightarrow> status r \<noteq> 200"
  by (auto simp: except_clauses_def split: if_splits)

lemma try_body_200:
  assumes "try_body L engine rj = (Inr r, calls)" and "status r = 200"
  shows "\<exists>a an. calls = [a] \<and> build_anomaly L rj = Inr a \<and> engine a = Inr an
           \<and> is_json (PDict (response_data L an))
           \<and> r = \<lparr>body = JsonText (PDict (response_data L an)), status = 200,
                    headers = main_headers\<rparr>"
  using assms
  by (auto simp: try_body_def json_dumps_def ebind_def split: if_splits sum.splits)

lemma analyze_anomaly_200:
  assumes "analyze_anomaly L engine request = (Inr r, calls)" and "status r = 200"
  shows "\<exists>a an. calls = [a] \<and> build_anomaly L (get_json request) = Inr a \<and> engine a = Inr an
           \<and> is_json (PDict (response_data L an))
           \<and> r = \<lparr>body = JsonText (PDict (response_data L an)), status = 200,
                    headers = main_headers\<rparr>"
proof -
  from assms have np: "http_method request \<noteq> ''OPTIONS''"
    by (auto simp: analyze_anomaly_def)
  obtain x cs where tb: "try_body L engine (get_json request) = (x, cs)"
    by (cases "try_body L engine (get_json request)")
  show ?thesis
  proof (cases x)
    case (Inl e)
    with assms np tb show ?thesis
      by (auto simp: analyze_anomaly_def dest: except_clauses_status)
  next
    case (Inr r')
    with assms np tb have "r' = r" "cs = calls"
      by (auto simp: analyze_anomaly_def)
    with tb Inr assms(2) show ?thesis
      using try_body_200 by blast
  qed
qed

lemma response_data_keys:
  "map fst (response_data L an) =
     [''success'', ''anomaly_id'', ''root_cause'', ''recommendations'', ''analyzed_at'',
      ''ai_model_used'', ''analysis_duration_ms'', ''saved_to_bigquery'']
     @ (case summary an of None \<Rightarrow> [] | Some s \<Rightarrow> [''human_readable_summary''])"
  by (simp add: response_data_def split: option.splits)

lemma response_data_summary:
  "map_of (response_data L an) ''human_readable_summary'' = map_option summary_dict (summary an)"
  by (simp add: response_data_def split: option.splits)

text \<open>
  \<^verbatim>\<open>AnomalyAnalysis.to_dict\<close> raises only when \<^verbatim>\<open>Anomaly.to_dict\<close> does; otherwise it
  returns a dict, whose key \<^verbatim>\<open>summary\<close> is the summary when there is one.
\<close>

lemma AnomalyAnalysis_to_dict_raises:
  assumes "Anomaly_to_dict L (anomaly an) = Inl e"
  shows "AnomalyAnalysis_to_dict L an = Inl e"
  using assms by (simp add: AnomalyAnalysis_to_dict_def)

lemma AnomalyAnalysis_to_dict_summary:
  assumes "Anomaly_to_dict L (anomaly an) = Inr ad"
  shows "\<exists>kvs. AnomalyAnalysis_to_dict L an = Inr (PDict kvs)
           \<and> map_of kvs ''anomaly'' = Some ad
           \<and> map_of kvs ''summary'' = map_option summary_dict (summary an)"
  using assms by (simp add: AnomalyAnalysis_to_dict_def split: option.splits)

text \<open>The request of section 8 with the sample engine: a success envelope.\<close>

lemma literal_run:
  "analyze_anomaly small_lib (sample_engine s) (post (PDict literal_fields)) =
     (Inr \<lparr>body = JsonText (PDict (response_data small_lib (sample_analysis s literal_anomaly))),
           status = 200, headers = main_headers\<rparr>, [literal_anomaly])"
proof -
  have keys: "set required_fields \<subseteq> fst ` set literal_fields"
    by (simp add: required_fields_def literal_fields_def)
  have "is_json (PDict (response_data small_lib (sample_analysis s literal_anomaly)))"
    by (simp add: response_data_def sample_analysis_def literal_anomaly_def summary_dict_def
        split: option.splits)
  then show ?thesis
    by (simp add: analyze_anomaly_dict[OF _ _ keys] post_def literal_accepted
        sample_engine_def json_dumps_def)
qed

text \<open>\<^verbatim>\<open>Anomaly.to_dict\<close> on the anomaly of the request of section 8.\<close>

lemma literal_to_dict:
  "Anomaly_to_dict small_lib literal_anomaly =
     Inr (PDict
       [(''anomaly_id'', PStr ''anom_1''),
        (''detected_at'', PStr ''2024-12-16T14:05:30+00:00''),
        (''metric_name'', PStr ''error_rate''),
        (''metric_type'', PStr ''error_rate''),
        (''current_value'', PFloat (Decimal 155 1)),
        (''baseline_value'', PFloat (Decimal 23 1)),
        (''deviation_sigma'', PFloat (Decimal 52 1)),
        (''deviation_percentage'', PFloat (Decimal 574 0)),
        (''anomaly_type'', PStr ''stability''),
        (''severity'', PStr ''high''),
        (''confidence'', PFloat (Decimal 8 1)),
        (''affected_resources'', PList []),
        (''time_window'', PDict []),
        (''related_metrics'', PDict []),
        (''metadata'', PDict [])])"
  by (simp add: Anomaly_to_dict_def literal_anomaly_def small_lib_def datetime_isoformat_def
      pad2_def pad4_def digit_char_def)

text \<open>
  C5: in every success response (status 200) the envelope has the key
  \<^verbatim>\<open>human_readable_summary\<close> if and only if the analysis the engine returned has a summary
  that is not \<^verbatim>\<open>None\<close>, and the value is then the dict of its five strings, whatever they
  are. \<^verbatim>\<open>AnomalyAnalysis.to_dict\<close> returns a dict whenever its anomaly serializes (and raises
  what \<^verbatim>\<open>Anomaly.to_dict\<close> raises otherwise), and that dict has the key \<^verbatim>\<open>summary\<close> if and
  only if the summary is not \<^verbatim>\<open>None\<close>, with the same value. An analysis with a summary and
  the same analysis without one give different envelopes.
\<close>

theorem summary_present_iff_not_None:
  "(analyze_anomaly L engine request = (Inr r, calls) \<and> status r = 200 \<longrightarrow>
      (\<exists>a an kvs. calls = [a] \<and> engine a = Inr an \<and> body r = JsonText (PDict kvs)
         \<and> (''human_readable_summary'' \<in> fst ` set kvs \<longleftrightarrow> summary an \<noteq> None)
         \<and> map_of kvs ''human_readable_summary'' = map_option summary_dict (summary an)))
   \<and> (Anomaly_to_dict L (anomaly an') = Inr ad \<longrightarrow>
        (\<exists>kvs'. AnomalyAnalysis_to_dict L an' = Inr (PDict kvs')
           \<and> (''summary'' \<in> fst ` set kvs' \<longleftrightarrow> summary an' \<noteq> None)
           \<and> map_of kvs' ''summary'' = map_option summary_dict (summary an')))
   \<and> (Anomaly_to_dict L (anomaly an') = Inl e \<longrightarrow> AnomalyAnalysis_to_dict L an' = Inl e)
   \<and> response_data L (an'\<lparr>summary := Some s\<rparr>) \<noteq> response_data L (an'\<lparr>summary := None\<rparr>)"
proof (intro conjI impI)
  assume "analyze_anomaly L engine request = (Inr r, calls) \<and> status r = 200"
  then obtain a an where *: "calls = [a]" "engine a = Inr an"
      "r = \<lparr>body = JsonText (PDict (response_data L an)), status = 200,
            headers = main_headers\<rparr>"
    using analyze_anomaly_200 by blast
  have "(''human_readable_summary'' \<in> fst ` set (response_data L an)) = (summary an \<noteq> None)"
    using response_data_keys[of L an] by (auto simp flip: set_map split: option.splits)
  with * show "\<exists>a an kvs. calls = [a] \<and> engine a = Inr an \<and> body r = JsonText (PDict kvs)
         \<and> (''human_readable_summary'' \<in> fst ` set kvs \<longleftrightarrow> summary an \<noteq> None)
         \<and> map_of kvs ''human_readable_summary'' = map_option summary_dict (summary an)"
    using response_data_summary[of L an] by auto
next
  assume "Anomaly_to_dict L (anomaly an') = Inr ad"
  from AnomalyAnalysis_to_dict_summary[OF this] obtain kvs' where
    d: "AnomalyAnalysis_to_dict L an' = Inr (PDict kvs')"
    and m: "map_of kvs' ''summary'' = map_option summary_dict (summary an')"
    by blast
  from m have "(''summary'' \<in> fst ` set kvs') = (summary an' \<noteq> None)"
    by (metis map_of_eq_None_iff option.map_disc_iff)
  with d m show "\<exists>kvs'. AnomalyAnalysis_to_dict L an' = Inr (PDict kvs')
           \<and> (''summary'' \<in> fst ` set kvs' \<longleftrightarrow> summary an' \<noteq> None)
           \<and> map_of kvs' ''summary'' = map_option summary_dict (summary an')"
    by blast
next
  assume "Anomaly_to_dict L (anomaly an') = Inl e"
  then show "AnomalyAnalysis_to_dict L an' = Inl e"
    by (rule AnomalyAnalysis_to_dict_raises)
next
  have "length (response_data L (an'\<lparr>summary := Some s\<rparr>))
          \<noteq> length (response_data L (an'\<lparr>summary := None\<rparr>))"
    by (simp add: response_data_def)
  then show "response_data L (an'\<lparr>summary := Some s\<rparr>) \<noteq> response_data L (an'\<lparr>summary := None\<rparr>)"
    by metis
qed

text \<open>
  The handler and \<^verbatim>\<open>AnomalyAnalysis.to_dict\<close> on the request of section 8: a summary of
  five empty strings is included as such; with no summary the key is absent.
\<close>

theorem summary_present_iff_not_None_witness:
  "(\<exists>kvs. analyze_anomaly small_lib (sample_engine (Some empty_summary))
            (post (PDict literal_fields)) =
            (Inr \<lparr>body = JsonText (PDict kvs), status = 200, headers = main_headers\<rparr>,
             [literal_anomaly])
         \<and> ''human_readable_summary'' \<in> fst ` set kvs
         \<and> map_of kvs ''human_readable_summary'' =
             Some (PDict [(''what_happened'', PStr []), (''why_it_happened'', PStr []),
                          (''what_is_the_impact'', PStr []),
                          (''what_improvements_can_be_made'', PStr []),
                          (''estimated_benefit_if_implemented'', PStr [])]))
   \<and> (\<exists>kvs. analyze_anomaly small_lib (sample_engine None) (post (PDict literal_fields)) =
            (Inr \<lparr>body = JsonText (PDict kvs), status = 200, headers = main_headers\<rparr>,
             [literal_anomaly])
         \<and> ''human_readable_summary'' \<notin> fst ` set kvs
         \<and> map_of kvs ''human_readable_summary'' = None)
   \<and> (\<exists>kvs. AnomalyAnalysis_to_dict small_lib
              (sample_analysis (Some empty_summary) literal_anomaly) = Inr (PDict kvs)
         \<and> ''summary'' \<in> fst ` set kvs
         \<and> map_of kvs ''summary'' =
             Some (PDict [(''what_happened'', PStr []), (''why_it_happened'', PStr []),
                          (''what_is_the_impact'', PStr []),
                          (''what_improvements_can_be_made'', PStr []),
                          (''estimated_benefit_if_implemented'', PStr [])]))
   \<and> (\<exists>kvs. AnomalyAnalysis_to_dict small_lib (sample_analysis None literal_anomaly)
              = Inr (PDict kvs)
         \<and> ''summary'' \<notin> fst ` set kvs
         \<and> map_of kvs ''summary'' = None)"
proof -
  have handler: "\<exists>kvs. analyze_anomaly small_lib (sample_engine s) (post (PDict literal_fields)) =
            (Inr \<lparr>body = JsonText (PDict kvs), status = 200, headers = main_headers\<rparr>,
             [literal_anomaly])
         \<and> (''human_readable_summary'' \<in> fst ` set kvs \<longleftrightarrow> s \<noteq> None)
         \<and> map_of kvs ''human_readable_summary'' = map_option summary_dict s" for s
  proof -
    let ?r = "\<lparr>body = JsonText (PDict (response_data small_lib (sample_analysis s literal_anomaly))),
               status = 200, headers = main_headers\<rparr>"
    have "analyze_anomaly small_lib (sample_engine s) (post (PDict literal_fields))
            = (Inr ?r, [literal_anomaly]) \<and> status ?r = 200"
      by (simp add: literal_run)
    with summary_present_iff_not_None
      [where L = small_lib and engine = "sample_engine s"
         and request = "post (PDict literal_fields)" and r = ?r and calls = "[literal_anomaly]"]
    obtain a an kvs where "[literal_anomaly] = [a]" "sample_engine s a = Inr an"
      "body ?r = JsonText (PDict kvs)"
      "''human_readable_summary'' \<in> fst ` set kvs \<longleftrightarrow> summary an \<noteq> None"
      "map_of kvs ''human_readable_summary'' = map_option summary_dict (summary an)"
      by blast
    then show ?thesis
      by (auto simp: literal_run sample_engine_def sample_analysis_def)
  qed
  have to_dict: "\<exists>kvs. AnomalyAnalysis_to_dict small_lib (sample_analysis s literal_anomaly)
              = Inr (PDict kvs)
         \<and> (''summary'' \<in> fst ` set kvs \<longleftrightarrow> s \<noteq> None)
         \<and> map_of kvs ''summary'' = map_option summary_dict s" for s
  proof -
    have "Anomaly_to_dict small_lib (anomaly (sample_analysis s literal_anomaly))
            = Anomaly_to_dict small_lib literal_anomaly"
      by (simp add: sample_analysis_def)
    with literal_to_dict summary_present_iff_not_None
      [where L = small_lib and an' = "sample_analysis s literal_anomaly"]
    obtain kvs where
      "AnomalyAnalysis_to_dict small_lib (sample_analysis s literal_anomaly) = Inr (PDict kvs)"
      "''summary'' \<in> fst ` set kvs \<longleftrightarrow> summary (sample_analysis s literal_anomaly) \<noteq> None"
      "map_of kvs ''summary'' = map_option summary_dict (summary (sample_analysis s literal_anomaly))"
      by metis
    then show ?thesis
      by (auto simp: sample_analysis_def)
  qed
  from handler[of "Some empty_summary"] handler[of None]
    to_dict[of "Some empty_summary"] to_dict[of None]
  show ?thesis
    by (simp add: summary_dict_def empty_summary_def)
qed

subsection \<open>C6: the keys of the success envelope\<close>

text \<open>
  C6: every success response (status 200) has a JSON object as body, with \<^verbatim>\<open>success\<close>
  true, \<^verbatim>\<open>anomaly_id\<close>, an object \<^verbatim>\<open>root_cause\<close>, a sequence \<^verbatim>\<open>recommendations\<close>, a string
  \<^verbatim>\<open>analyzed_at\<close>, a string \<^verbatim>\<open>ai_model_used\<close>, an integer \<^verbatim>\<open>analysis_duration_ms\<close>, and
  \<^verbatim>\<open>saved_to_bigquery\<close> true. The flag is a constant of the handler: the theorem holds for
  every engine, whatever it did or did not persist.
\<close>

theorem success_envelope_keys:
  assumes "analyze_anomaly L engine request = (Inr r, calls)" and "status r = 200"
  shows "\<exists>kvs aid rc recs ts model ms.
           body r = JsonText (PDict kvs)
         \<and> map_of kvs ''success'' = Some (PBool True)
         \<and> map_of kvs ''anomaly_id'' = Some aid
         \<and> map_of kvs ''root_cause'' = Some (PDict rc)
         \<and> map_of kvs ''recommendations'' = Some (PList recs)
         \<and> map_of kvs ''analyzed_at'' = Some (PStr ts)
         \<and> map_of kvs ''ai_model_used'' = Some (PStr model)
         \<and> map_of kvs ''analysis_duration_ms'' = Some (PInt ms)
         \<and> map_of kvs ''saved_to_bigquery'' = Some (PBool True)"
proof -
  from analyze_anomaly_200[OF assms] obtain a an where
    "r = \<lparr>body = JsonText (PDict (response_data L an)), status = 200, headers = main_headers\<rparr>"
    by blast
  then show ?thesis
    by (simp add: response_data_def)
qed

theorem success_envelope_keys_witness:
  "\<exists>kvs aid rc ts model ms.
     analyze_anomaly small_lib (sample_engine None) (post (PDict literal_fields)) =
       (Inr \<lparr>body = JsonText (PDict kvs), status = 200, headers = main_headers\<rparr>,
        [literal_anomaly])
   \<and> map_of kvs ''success'' = Some (PBool True)
   \<and> map_of kvs ''anomaly_id'' = Some aid
   \<and> map_of kvs ''root_cause'' = Some (PDict rc)
   \<and> map_of kvs ''recommendations'' = Some (PList [])
   \<and> map_of kvs ''analyzed_at'' = Some (PStr ts)
   \<and> map_of kvs ''ai_model_used'' = Some (PStr model)
   \<and> map_of kvs ''analysis_duration_ms'' = Some (PInt ms)
   \<and> map_of kvs ''saved_to_bigquery'' = Some (PBool True)"
proof -
  let ?r = "\<lparr>body = JsonText (PDict (response_data small_lib (sample_analysis None literal_anomaly))),
             status = 200, headers = main_headers\<rparr>"
  have run: "analyze_anomaly small_lib (sample_engine None) (post (PDict literal_fields))
               = (Inr ?r, [literal_anomaly])"
    by (rule literal_run)
  have recs: "map_of (response_data small_lib (sample_analysis None literal_anomaly))
                ''recommendations'' = Some (PList [])"
    by (simp add: response_data_def sample_analysis_def)
  from success_envelope_keys[OF run] obtain kvs aid rc recs ts model ms where
    "body ?r = JsonText (PDict kvs)"
    "map_of kvs ''success'' = Some (PBool True)"
    "map_of kvs ''anomaly_id'' = Some aid"
    "map_of kvs ''root_cause'' = Some (PDict rc)"
    "map_of kvs ''recommendations'' = Some (PList recs)"
    "map_of kvs ''analyzed_at'' = Some (PStr ts)"
    "map_of kvs ''ai_model_used'' = Some (PStr model)"
    "map_of kvs ''analysis_duration_ms'' = Some (PInt ms)"
    "map_of kvs ''saved_to_bigquery'' = Some (PBool True)"
    by auto
  with run recs show ?thesis
    by auto
qed

subsection \<open>C10: defaults of the optional fields\<close>

text \<open>
  Whether a request is accepted does not depend on its \<^verbatim>\<open>confidence\<close>: an accepted request
  with \<^verbatim>\<open>confidence\<close> set to any value is accepted, and the anomaly holds that value.
\<close>

lemma build_anomaly_update_confidence:
  assumes "build_anomaly L (PDict kvs) = Inr a"
  shows "build_anomaly L (PDict (AList.update ''confidence'' v kvs)) = Inr (a\<lparr>confidence := v\<rparr>)"
  using assms unfolding build_anomaly_Inr_iff
  by (simp add: update_conv')

text \<open>
  C10: for every request the validator accepts, the anomaly it constructs is the one
  handed to the engine, and in it: \<^verbatim>\<open>confidence\<close> is the float \<^verbatim>\<open>0.8\<close> when the key is absent
  and the value of the request, unchanged, when the key is present; \<^verbatim>\<open>affected_resources\<close>
  is the empty list, and \<^verbatim>\<open>time_window\<close>, \<^verbatim>\<open>related_metrics\<close> and \<^verbatim>\<open>metadata\<close> the empty
  dict, when their keys are absent. And whatever value \<open>v\<close> the request is then given as
  \<^verbatim>\<open>confidence\<close>, it is still accepted, and the anomaly constructed and handed to the engine
  is the same one with \<^verbatim>\<open>confidence\<close> equal to \<open>v\<close>: nothing rejects or clamps it.
\<close>

theorem optional_field_defaults:
  assumes "http_method request \<noteq> ''OPTIONS''"
    and "get_json request = PDict kvs"
    and "build_anomaly L (PDict kvs) = Inr a"
  shows "snd (analyze_anomaly L engine request) = [a]
       \<and> (map_of kvs ''confidence'' = None \<longrightarrow> confidence a = PFloat (float_0_8 L))
       \<and> (\<forall>v. map_of kvs ''confidence'' = Some v \<longrightarrow> confidence a = v)
       \<and> (map_of kvs ''affected_resources'' = None \<longrightarrow> affected_resources a = PList [])
       \<and> (map_of kvs ''time_window'' = None \<longrightarrow> time_window a = PDict [])
       \<and> (map_of kvs ''related_metrics'' = None \<longrightarrow> related_metrics a = PDict [])
       \<and> (map_of kvs ''metadata'' = None \<longrightarrow> metadata a = PDict [])
       \<and> build_anomaly L (PDict (AList.update ''confidence'' v kvs)) = Inr (a\<lparr>confidence := v\<rparr>)
       \<and> snd (analyze_anomaly L engine
                (request\<lparr>get_json := PDict (AList.update ''confidence'' v kvs)\<rparr>))
           = [a\<lparr>confidence := v\<rparr>]"
proof -
  have "snd (analyze_anomaly L engine request) = [a]"
    using assms(3)
    by (simp add: analyze_anomaly_dict[OF assms(1,2) build_anomaly_keys[OF assms(3)]]
        split: sum.splits)
  moreover from assms(3) have
    "confidence a = (case map_of kvs ''confidence'' of None \<Rightarrow> PFloat (float_0_8 L) | Some v \<Rightarrow> v)"
    "affected_resources a = (case map_of kvs ''affected_resources'' of None \<Rightarrow> PList [] | Some v \<Rightarrow> v)"
    "time_window a = (case map_of kvs ''time_window'' of None \<Rightarrow> PDict [] | Some v \<Rightarrow> v)"
    "related_metrics a = (case map_of kvs ''related_metrics'' of None \<Rightarrow> PDict [] | Some v \<Rightarrow> v)"
    "metadata a = (case map_of kvs ''metadata'' of None \<Rightarrow> PDict [] | Some v \<Rightarrow> v)"
    unfolding build_anomaly_Inr_iff by blast+
  moreover note upd = build_anomaly_update_confidence[OF assms(3), of v]
  moreover have "snd (analyze_anomaly L engine
                (request\<lparr>get_json := PDict (AList.update ''confidence'' v kvs)\<rparr>))
           = [a\<lparr>confidence := v\<rparr>]"
    using assms(1) upd
    by (simp add: analyze_anomaly_dict[OF _ _ update_keys[OF build_anomaly_keys[OF assms(3)]]]
        split: sum.splits)
  ultimately show ?thesis
    by simp
qed

text \<open>
  The request of section 8, and the same request with \<^verbatim>\<open>"confidence":1.5\<close> and with
  \<^verbatim>\<open>"confidence":-3\<close>.
\<close>

theorem optional_field_defaults_witness:
  "snd (analyze_anomaly small_lib (sample_engine None) (post (PDict literal_fields)))
     = [literal_anomaly]
   \<and> confidence literal_anomaly = PFloat (float_0_8 small_lib)
   \<and> float_0_8 small_lib = Decimal 8 1
   \<and> affected_resources literal_anomaly = PList []
   \<and> time_window literal_anomaly = PDict []
   \<and> related_metrics literal_anomaly = PDict []
   \<and> metadata literal_anomaly = PDict []
   \<and> build_anomaly small_lib (literal_with ''confidence'' (PFloat (Decimal 15 1)))
     = Inr (literal_anomaly\<lparr>confidence := PFloat (Decimal 15 1)\<rparr>)
   \<and> snd (analyze_anomaly small_lib (sample_engine None)
            (post (literal_with ''confidence'' (PFloat (Decimal 15 1)))))
     = [literal_anomaly\<lparr>confidence := PFloat (Decimal 15 1)\<rparr>]
   \<and> build_anomaly small_lib (literal_with ''confidence'' (PInt (- 3)))
     = Inr (literal_anomaly\<lparr>confidence := PInt (- 3)\<rparr>)
   \<and> snd (analyze_anomaly small_lib (sample_engine None)
            (post (literal_with ''confidence'' (PInt (- 3)))))
     = [literal_anomaly\<lparr>confidence := PInt (- 3)\<rparr>]"
  using optional_field_defaults
    [where request = "post (PDict literal_fields)" and engine = "sample_engine None"
       and v = "PFloat (Decimal 15 1)",
     OF _ _ literal_accepted]
    optional_field_defaults
    [where request = "post (PDict literal_fields)" and engine = "sample_engine None"
       and v = "PInt (- 3)",
     OF _ _ literal_accepted]
  by (simp add: post_def literal_with_def literal_fields_def small_lib_def)

subsection \<open>C7: the columns of \<^verbatim>\<open>ANOMALY_TABLE_SCHEMA\<close>\<close>

text \<open>
  What holds: the columns of the schema are, in order, the fields of \<^verbatim>\<open>Anomaly\<close> other than
  \<^verbatim>\<open>time_window\<close>, each with the column type of its annotation.
\<close>

lemma schema_columns:
  "map (\<lambda>c. (name c, field_type c)) ANOMALY_TABLE_SCHEMA =
     map (\<lambda>p. (fst p, column_type (snd p))) [p \<leftarrow> Anomaly_fields. fst p \<noteq> ''time_window'']"
  by (simp add: ANOMALY_TABLE_SCHEMA_def Anomaly_fields_def)

text \<open>
  C7 on the code: \<^verbatim>\<open>time_window\<close> is a field of \<^verbatim>\<open>Anomaly\<close> (a \<^verbatim>\<open>Dict\<close>, which
  \<^verbatim>\<open>Anomaly.to_dict\<close> serializes), and no column of \<^verbatim>\<open>ANOMALY_TABLE_SCHEMA\<close> has that
  name: the schema has 14 columns for the 15 fields.
\<close>

theorem schema_lacks_time_window:
  "(''time_window'', T_Dict) \<in> set Anomaly_fields
   \<and> ''time_window'' \<notin> set (map name ANOMALY_TABLE_SCHEMA)
   \<and> length ANOMALY_TABLE_SCHEMA = 14 \<and> length Anomaly_fields = 15"
  by (simp add: ANOMALY_TABLE_SCHEMA_def Anomaly_fields_def)

subsection \<open>C8: the timestamps of \<^verbatim>\<open>time_window\<close>\<close>

text \<open>
  A JSON value is no datetime, so \<^verbatim>\<open>v.isoformat()\<close> raises on it; and the handler stores
  the \<^verbatim>\<open>time_window\<close> of the request as it is. So \<^verbatim>\<open>Anomaly.to_dict\<close> raises on the anomaly
  of every accepted request whose \<^verbatim>\<open>time_window\<close> is a non-empty JSON object.
\<close>

lemma py_isoformat_json:
  assumes "is_json v"
  shows "py_isoformat L v =
           Inl (AttributeError (quoted (type_name v) @ '' object has no attribute ''
                                @ quoted ''isoformat''))"
  using assms by (cases v) simp_all

lemma to_dict_fails_on_json_time_window:
  assumes "build_anomaly L (PDict kvs) = Inr a"
    and "map_of kvs ''time_window'' = Some (PDict ((k, v) # tw))"
    and "is_json v"
  shows "Anomaly_to_dict L a =
           Inl (AttributeError (quoted (type_name v) @ '' object has no attribute ''
                                @ quoted ''isoformat''))"
proof -
  from assms(1,2) have "time_window a = PDict ((k, v) # tw)"
    unfolding build_anomaly_Inr_iff by simp
  then show ?thesis
    by (simp add: Anomaly_to_dict_def py_isoformat_json[OF assms(3)])
qed

lemma time_window_request_accepted:
  "build_anomaly small_lib (PDict (literal_fields @ [(''time_window'', v)])) =
     Inr (literal_anomaly\<lparr>time_window := v\<rparr>)"
  by (simp add: build_anomaly_def literal_fields_def literal_anomaly_def small_lib_def
      literal_detected_at py_fromisoformat_def AnomalyType_call_def Severity_call_def
      enum_call_def AnomalyType_members_def Severity_members_def)

text \<open>
  C8 on the code: for the request of section 8 with
  \<^verbatim>\<open>"time_window":{"start":"2024-12-16T14:00:00Z"}\<close> the handler constructs an anomaly whose
  \<^verbatim>\<open>time_window\<close> still holds the string (\<^verbatim>\<open>detected_at\<close> is parsed, the values of
  \<^verbatim>\<open>time_window\<close> are not), and \<^verbatim>\<open>Anomaly.to_dict\<close> raises
  \<^verbatim>\<open>AttributeError: 'str' object has no attribute 'isoformat'\<close> on it.
\<close>

theorem time_window_not_coerced:
  "build_anomaly small_lib
     (PDict (literal_fields @
        [(''time_window'', PDict [(''start'', PStr ''2024-12-16T14:00:00Z'')])])) =
     Inr (literal_anomaly\<lparr>time_window := PDict [(''start'', PStr ''2024-12-16T14:00:00Z'')]\<rparr>)
   \<and> Anomaly_to_dict small_lib
       (literal_anomaly\<lparr>time_window := PDict [(''start'', PStr ''2024-12-16T14:00:00Z'')]\<rparr>) =
     Inl (AttributeError (quoted ''str'' @ '' object has no attribute '' @ quoted ''isoformat''))"
  by (simp add: time_window_request_accepted Anomaly_to_dict_def literal_anomaly_def)

subsection \<open>C9: the round trip through \<^verbatim>\<open>to_dict\<close>\<close>

text \<open>
  What holds: an accepted request whose \<^verbatim>\<open>time_window\<close> is absent or empty round-trips,
  for every library whose \<^verbatim>\<open>fromisoformat\<close> reads back what \<^verbatim>\<open>isoformat\<close> printed for the
  parsed timestamp; the request of section 8 does.
\<close>

lemma AnomalyType_call_value: "AnomalyType_call L (PStr (AnomalyType_value t)) = Inr t"
  by (cases t) (simp_all add: AnomalyType_call_def enum_call_def AnomalyType_members_def)

lemma Severity_call_value: "Severity_call L (PStr (Severity_value t)) = Inr t"
  by (cases t) (simp_all add: Severity_call_def enum_call_def Severity_members_def)

lemma round_trip_without_time_window:
  assumes "build_anomaly L (PDict kvs) = Inr a"
    and "time_window a = PDict []"
    and "fromisoformat L (replace_Z (isoformat L (detected_at a))) = Inr (detected_at a)"
  shows "\<exists>d. Anomaly_to_dict L a = Inr (PDict d) \<and> build_anomaly L (PDict d) = Inr a"
proof -
  let ?d = "[(''anomaly_id'', anomaly_id a),
        (''detected_at'', PStr (isoformat L (detected_at a))),
        (''metric_name'', metric_name a),
        (''metric_type'', metric_type a),
        (''current_value'', PFloat (current_value a)),
        (''baseline_value'', PFloat (baseline_value a)),
        (''deviation_sigma'', PFloat (deviation_sigma a)),
        (''deviation_percentage'', PFloat (deviation_percentage a)),
        (''anomaly_type'', PStr (AnomalyType_value (anomaly_type a))),
        (''severity'', PStr (Severity_value (severity a))),
        (''confidence'', confidence a),
        (''affected_resources'', affected_resources a),
        (''time_window'', PDict []),
        (''related_metrics'', related_metrics a),
        (''metadata'', metadata a)]"
  have 1: "Anomaly_to_dict L a = Inr (PDict ?d)"
    by (simp add: Anomaly_to_dict_def assms(2))
  have 2: "build_anomaly L (PDict ?d) = Inr a"
    unfolding build_anomaly_Inr_iff
    by (simp add: assms(2,3) AnomalyType_call_value Severity_call_value)
  from 1 2 show ?thesis by blast
qed

lemma literal_round_trip:
  "ebind (build_anomaly small_lib (PDict literal_fields))
     (\<lambda>a. ebind (Anomaly_to_dict small_lib a)
     (\<lambda>d. ebind (build_anomaly small_lib d)
     (\<lambda>a'. Inr (a' = a)))) = Inr True"
proof -
  have iso: "isoformat small_lib (detected_at literal_anomaly) = ''2024-12-16T14:05:30+00:00''"
    by (simp add: small_lib_def literal_anomaly_def datetime_isoformat_def pad2_def pad4_def
        digit_char_def)
  have "datetime_fromisoformat (replace_Z ''2024-12-16T14:05:30+00:00'')
          = Inr (detected_at literal_anomaly)"
    by (simp add: replace_Z_def datetime_fromisoformat_def parse_datetime_def parse_offset_def
      digits_def digit_value_def days_in_month_def literal_anomaly_def)
  then have "fromisoformat small_lib (replace_Z (isoformat small_lib (detected_at literal_anomaly)))
          = Inr (detected_at literal_anomaly)"
    unfolding iso by (simp add: small_lib_def)
  from round_trip_without_time_window[OF literal_accepted _ this]
  obtain d where "Anomaly_to_dict small_lib literal_anomaly = Inr (PDict d)"
    "build_anomaly small_lib (PDict d) = Inr literal_anomaly"
    by (auto simp: literal_anomaly_def)
  then show ?thesis
    by (simp add: literal_accepted)
qed

text \<open>
  C9 on the code: for the request of section 8 with
  \<^verbatim>\<open>"time_window":{"end":"2024-12-16T15:00:00+00:00"}\<close> (ten required fields, well-typed
  values) construction succeeds, but serializing the anomaly with \<^verbatim>\<open>to_dict\<close> raises
  \<^verbatim>\<open>AttributeError\<close>: the round trip (construct, serialize, construct again, compare)
  ends in that exception instead of an equal anomaly.
\<close>

theorem round_trip_fails_with_time_window:
  "ebind (build_anomaly small_lib
            (PDict (literal_fields @
               [(''time_window'', PDict [(''end'', PStr ''2024-12-16T15:00:00+00:00'')])])))
     (\<lambda>a. ebind (Anomaly_to_dict small_lib a)
     (\<lambda>d. ebind (build_anomaly small_lib d)
     (\<lambda>a'. Inr (a' = a)))) =
   Inl (AttributeError (quoted ''str'' @ '' object has no attribute '' @ quoted ''isoformat''))"
  by (simp add: time_window_request_accepted Anomaly_to_dict_def literal_anomaly_def)


end
